theory Spec2Isabelle
  imports Complex_Main "HOL-Library.Multiset"
begin

section \<open>Values shared by the backend\<close>

text \<open>
  The Python exceptions that the two backend modules raise or let through. One constructor
  per exception class; \<open>HTTPException\<close> carries the status code and the detail string of
  \<^verbatim>\<open>raise HTTPException(status_code=..., detail=...)\<close>. \<open>PoolError\<close>, \<open>InterfaceError\<close>,
  \<open>IntegrityError\<close>, \<open>DataError\<close> and \<open>ProgrammingError\<close> are the subclasses of
  \<^verbatim>\<open>mysql.connector.Error\<close> that the statements of \<^verbatim>\<open>database.py\<close> can raise.
\<close>

datatype exn =
    HTTPException nat string
  | AttributeError
  | TypeError
  | IndexError
  | ValueError string
  | PoolError
  | InterfaceError
  | IntegrityError
  | DataError
  | ProgrammingError

text \<open>Sequencing of two fallible steps: the first exception raised is the one that propagates.\<close>

definition bind :: "exn + 'a \<Rightarrow> ('a \<Rightarrow> exn + 'b) \<Rightarrow> exn + 'b" where
  "bind r f = (case r of Inl e \<Rightarrow> Inl e | Inr v \<Rightarrow> f v)"

text \<open>A cell of a parsed table, or a value of the \<^verbatim>\<open>name\<close> key: text, or pandas' NaN for an empty cell.\<close>

datatype cell = Str string | NaN

text \<open>
  The eleven scoring inputs, in the order of \<^verbatim>\<open>LoanData\<close>. Python floats are modelled by the
  rational numbers they denote (finite values only).
\<close>

record features =
  annual_income :: rat
  debt_to_income_ratio :: rat
  credit_score :: rat
  loan_amount :: rat
  interest_rate :: rat
  gender :: string
  marital_status :: string
  education_level :: string
  employment_status :: string
  loan_purpose :: string
  grade_subgrade :: string

section \<open>database.py: tables\<close>

text \<open>Rows of \<^verbatim>\<open>users\<close> and \<^verbatim>\<open>predictions\<close>, one field per column of the \<^verbatim>\<open>CREATE TABLE\<close> statements.
  A nullable column that the program can leave NULL is an option. Timestamps are whole seconds.\<close>

record user_row =
  u_id :: nat
  u_username :: string
  u_email :: string
  u_hashed_password :: string
  u_created_at :: int

record prediction_row =
  p_id :: nat
  p_user_id :: nat
  p_name :: "string option"
  p_features :: features
  p_prediction :: int
  p_probability :: rat
  p_prediction_type :: string
  p_batch_id :: "string option"
  p_created_at :: int

text \<open>
  The content of the MySQL server: the two tables in insertion order and the server's SQL mode
  (\<open>sql_strict\<close>: whether a value that does not fit its column is an error or is adjusted).
\<close>

record database =
  users :: "user_row list"
  predictions :: "prediction_row list"
  sql_strict :: bool

section \<open>database.py: connection pool and scoped acquisition\<close>

text \<open>What the driver and the console observe, in order.\<close>

datatype event =
    PoolCreated
  | PoolInitFailed
  | GetConnection
  | OpenCursor
  | Commit
  | Rollback
  | CursorClose
  | ConnClose

text \<open>
  The process and its surroundings: the module global \<^verbatim>\<open>connection_pool\<close> (\<open>None\<close>, or the
  number of free handles of the pool), whether the server can be reached, the committed
  content of the server, the server clock, and the log of events. \<open>use_pure\<close> tells which
  implementation of \<^verbatim>\<open>mysql.connector\<close> is installed (pure Python, or the C extension, which
  \<^verbatim>\<open>DB_CONFIG\<close> does not choose). \<open>uuid_drawn\<close> counts the calls of \<^verbatim>\<open>uuid.uuid4()\<close> made so far.
\<close>

record world =
  connection_pool :: "nat option"
  db_up :: bool
  db :: database
  clock :: int
  events :: "event list"
  use_pure :: bool
  uuid_drawn :: nat

definition pool_size :: nat where
  "pool_size = 5"

definition log :: "event list \<Rightarrow> world \<Rightarrow> world" where
  "log es w = w\<lparr>events := events w @ es\<rparr>"

text \<open>
  \<^verbatim>\<open>init_connection_pool\<close>: the constructor of the pool connects to the server; when that raises
  \<^verbatim>\<open>mysql.connector.Error\<close> the handler prints the error and returns, and the global stays \<open>None\<close>.
\<close>

definition init_connection_pool :: "world \<Rightarrow> world" where
  "init_connection_pool w =
     (if db_up w then log [PoolCreated] (w\<lparr>connection_pool := Some pool_size\<rparr>)
      else log [PoolInitFailed] w)"

text \<open>
  \<^verbatim>\<open>connection_pool.get_connection()\<close>. On \<open>None\<close> the attribute lookup raises \<open>AttributeError\<close>.
  On a pool: \<open>PoolError\<close> when no handle is free, \<open>InterfaceError\<close> when the handle cannot be
  (re)connected, else one handle leaves the pool.
\<close>

definition get_connection :: "world \<Rightarrow> exn + world" where
  "get_connection w =
     (case connection_pool w of
        None \<Rightarrow> Inl AttributeError
      | Some free \<Rightarrow>
          if free = 0 then Inl PoolError
          else if \<not> db_up w then Inl InterfaceError
          else Inr (log [GetConnection] (w\<lparr>connection_pool := Some (free - 1)\<rparr>)))"

definition commit :: "database \<Rightarrow> world \<Rightarrow> world" where
  "commit d w = log [Commit] (w\<lparr>db := d\<rparr>)"

definition rollback :: "world \<Rightarrow> world" where
  "rollback w = log [Rollback] w"

text \<open>The \<^verbatim>\<open>finally\<close> block: \<^verbatim>\<open>cursor.close()\<close>, then \<^verbatim>\<open>conn.close()\<close>, which puts the handle back.\<close>

definition release :: "world \<Rightarrow> world" where
  "release w = log [CursorClose, ConnClose] (w\<lparr>connection_pool := map_option Suc (connection_pool w)\<rparr>)"

text \<open>
  \<^verbatim>\<open>get_db\<close>, with the body of the \<^verbatim>\<open>with\<close> block as an argument. The body works on the
  transaction's view of the tables and either raises or returns a value and the changed view.
  The view becomes the committed content only through \<^verbatim>\<open>conn.commit()\<close>.
\<close>

definition get_db :: "(database \<Rightarrow> exn + 'a \<times> database) \<Rightarrow> world \<Rightarrow> (exn + 'a) \<times> world" where
  "get_db body w =
     (let w1 = (if connection_pool w = None then init_connection_pool w else w) in
      case get_connection w1 of
        Inl e \<Rightarrow> (Inl e, w1)
      | Inr w2 \<Rightarrow>
          (let w3 = log [OpenCursor] w2 in
           case body (db w3) of
             Inr (v, d) \<Rightarrow> (Inr v, release (commit d w3))
           | Inl e \<Rightarrow> (Inl e, release (rollback w3))))"

text \<open>A handle can be acquired: the server answers and the pool, if it exists, has a free handle.\<close>

definition db_available :: "world \<Rightarrow> bool" where
  "db_available w = (db_up w \<and> connection_pool w \<noteq> Some 0)"

text \<open>The pool as the next acquisition finds it: created on demand, otherwise as it is.\<close>

definition pool_after_init :: "world \<Rightarrow> nat option" where
  "pool_after_init w = (if connection_pool w = None then Some pool_size else connection_pool w)"

definition init_events :: "world \<Rightarrow> event list" where
  "init_events w = (if connection_pool w = None then [PoolCreated] else [])"

section \<open>database.py: column types\<close>

text \<open>
  \<^verbatim>\<open>DECIMAL(p, s)\<close>: a value with more than \<open>s\<close> decimals is rounded on insertion, half away
  from zero. A rounded value with more than \<open>p\<close> digits is out of range: an error in strict
  mode, otherwise replaced by the nearest bound of the column.
\<close>

definition round_half_away :: "nat \<Rightarrow> rat \<Rightarrow> rat" where
  "round_half_away s x =
     (if x < 0 then - rat_of_int \<lfloor>- x * 10 ^ s + 1 / 2\<rfloor> else rat_of_int \<lfloor>x * 10 ^ s + 1 / 2\<rfloor>) / 10 ^ s"

definition decimal_column :: "bool \<Rightarrow> nat \<Rightarrow> nat \<Rightarrow> rat \<Rightarrow> exn + rat" where
  "decimal_column strict p s x =
     (let r = round_half_away s x; top = (10 ^ p - 1) / 10 ^ s in
      if \<bar>r\<bar> \<le> top then Inr r
      else if strict then Inl DataError
      else Inr (if r < 0 then - top else top))"

definition tinyint_column :: "bool \<Rightarrow> int \<Rightarrow> exn + int" where
  "tinyint_column strict n =
     (if - 128 \<le> n \<and> n \<le> 127 then Inr n
      else if strict then Inl DataError
      else Inr (if n < 0 then - 128 else 127))"

text \<open>\<^verbatim>\<open>VARCHAR(n)\<close>: a longer string is an error in strict mode, otherwise cut to \<open>n\<close> characters.\<close>

definition varchar_column :: "bool \<Rightarrow> nat \<Rightarrow> string \<Rightarrow> exn + string" where
  "varchar_column strict n s =
     (if length s \<le> n then Inr s
      else if strict then Inl DataError
      else Inr (take n s))"

text \<open>A nullable \<^verbatim>\<open>VARCHAR(n)\<close> that receives \<^verbatim>\<open>None\<close> stores NULL.\<close>

definition varchar_null_column :: "bool \<Rightarrow> nat \<Rightarrow> string option \<Rightarrow> exn + string option" where
  "varchar_null_column strict n v =
     (case v of None \<Rightarrow> Inr None | Some s \<Rightarrow> bind (varchar_column strict n s) (\<lambda>t. Inr (Some t)))"

text \<open>
  A value of the \<^verbatim>\<open>name\<close> key as a parameter of the \<^verbatim>\<open>INSERT\<close>. Text is sent as text. The
  pure-Python driver sends a float NaN as NULL; the C extension sends the bare word \<^verbatim>\<open>nan\<close>,
  which the server rejects, and \<^verbatim>\<open>execute\<close> raises \<open>ProgrammingError\<close>.
\<close>

definition cell_param :: "bool \<Rightarrow> cell \<Rightarrow> exn + string option" where
  "cell_param pure c =
     (case c of
        Str s \<Rightarrow> Inr (Some s)
      | NaN \<Rightarrow> if pure then Inr None else Inl ProgrammingError)"

text \<open>\<^verbatim>\<open>AUTO_INCREMENT\<close>: one more than the largest id of the table, starting at 1.\<close>

definition next_id :: "nat list \<Rightarrow> nat" where
  "next_id ids = Suc (foldr max ids 0)"

section \<open>database.py: passwords\<close>

text \<open>
  The bcrypt package is not part of the repository. \<open>hashpw\<close> and \<open>checkpw\<close> follow its
  interface. A password of more than 72 bytes raises \<open>ValueError\<close> before anything else is
  looked at. The second argument of \<^verbatim>\<open>hashpw\<close> is then split at \<^verbatim>\<open>$\<close> into version, cost and
  remainder (a salt of 22 characters, perhaps followed by a digest); an argument without that
  shape raises \<^verbatim>\<open>ValueError("Invalid salt")\<close>. The key derivation itself, \<open>crypt\<close>, is a
  parameter: it returns the full hash string, or nothing when it rejects its arguments.
  Strings are the byte strings that \<^verbatim>\<open>encode('utf-8')\<close> gives.
\<close>

definition password_too_long :: string where
  "password_too_long =
     ''password cannot be longer than 72 bytes, truncate manually if necessary (e.g. my_password[:72])''"

fun split_on :: "char \<Rightarrow> string \<Rightarrow> string list" where
  "split_on c [] = [[]]"
| "split_on c (x # xs) =
     (if x = c then [] # split_on c xs
      else (case split_on c xs of [] \<Rightarrow> [[x]] | p # ps \<Rightarrow> (x # p) # ps))"

definition digit :: "char \<Rightarrow> int option" where
  "digit c = (let n = (of_char c :: int) in if 48 \<le> n \<and> n \<le> 57 then Some (n - 48) else None)"

fun digits :: "int \<Rightarrow> string \<Rightarrow> int option" where
  "digits acc [] = Some acc"
| "digits acc (c # cs) = (case digit c of None \<Rightarrow> None | Some d \<Rightarrow> digits (10 * acc + d) cs)"

definition parse_u32 :: "string \<Rightarrow> int option" where
  "parse_u32 s =
     (let ds = (case s of [] \<Rightarrow> [] | c # cs \<Rightarrow> if c = CHR ''+'' then cs else s) in
      if ds = [] then None
      else (case digits 0 ds of None \<Rightarrow> None | Some n \<Rightarrow> if n < 4294967296 then Some n else None))"

definition bcrypt_fields :: "string \<Rightarrow> (string \<times> int \<times> string) option" where
  "bcrypt_fields salt =
     (case filter (\<lambda>p. p \<noteq> []) (split_on CHR ''$'' salt) of
        [version, cost, remainder] \<Rightarrow>
          if version \<notin> set [''2y'', ''2b'', ''2a'', ''2x''] then None
          else (case parse_u32 cost of
                  None \<Rightarrow> None
                | Some n \<Rightarrow> if length remainder < 22 then None else Some (version, n, take 22 remainder))
      | _ \<Rightarrow> None)"

type_synonym crypt = "string \<Rightarrow> int \<Rightarrow> string \<Rightarrow> string \<Rightarrow> string option"

definition hashpw :: "crypt \<Rightarrow> string \<Rightarrow> string \<Rightarrow> exn + string" where
  "hashpw crypt password salt =
     (if 72 < length password then Inl (ValueError password_too_long)
      else (case bcrypt_fields salt of
              None \<Rightarrow> Inl (ValueError ''Invalid salt'')
            | Some (version, cost, raw_salt) \<Rightarrow>
                (case crypt version cost raw_salt password of
                   None \<Rightarrow> Inl (ValueError ''Invalid salt'')
                 | Some hashed \<Rightarrow> Inr hashed)))"

definition checkpw :: "crypt \<Rightarrow> string \<Rightarrow> string \<Rightarrow> exn + bool" where
  "checkpw crypt password hashed_password =
     bind (hashpw crypt password hashed_password) (\<lambda>ret. Inr (ret = hashed_password))"

text \<open>\<^verbatim>\<open>hash_password\<close>; \<open>salt\<close> is the value that \<^verbatim>\<open>bcrypt.gensalt()\<close> draws for this call.\<close>

definition hash_password :: "crypt \<Rightarrow> string \<Rightarrow> string \<Rightarrow> exn + string" where
  "hash_password crypt salt password = hashpw crypt password salt"

definition verify_password :: "crypt \<Rightarrow> string \<Rightarrow> string \<Rightarrow> exn + bool" where
  "verify_password crypt plain_password hashed_password = checkpw crypt plain_password hashed_password"

section \<open>database.py: users\<close>

text \<open>
  Both text columns of \<^verbatim>\<open>users\<close> are compared under the collation of the table
  (\<^verbatim>\<open>utf8mb4_unicode_ci\<close>): two strings are equal when their collation keys are. The key
  function \<open>ckey\<close> is a parameter.
\<close>

record user_dict =
  ud_id :: nat
  ud_username :: string
  ud_email :: string
  ud_hashed_password :: string

definition insert_user :: "(string \<Rightarrow> 'k) \<Rightarrow> int \<Rightarrow> string \<Rightarrow> string \<Rightarrow> string \<Rightarrow> database \<Rightarrow> exn + nat \<times> database" where
  "insert_user ckey now username email hashed_pw d =
     bind (varchar_column (sql_strict d) 255 username) (\<lambda>un.
     bind (varchar_column (sql_strict d) 255 email) (\<lambda>em.
     bind (varchar_column (sql_strict d) 255 hashed_pw) (\<lambda>hp.
       if list_ex (\<lambda>u. ckey (u_username u) = ckey un) (users d)
          \<or> list_ex (\<lambda>u. ckey (u_email u) = ckey em) (users d)
       then Inl IntegrityError
       else (let lastrowid = next_id (map u_id (users d)) in
             Inr (lastrowid,
                  d\<lparr>users := users d @
                     [\<lparr>u_id = lastrowid, u_username = un, u_email = em,
                       u_hashed_password = hp, u_created_at = now\<rparr>]\<rparr>)))))"

definition create_user :: "(string \<Rightarrow> 'k) \<Rightarrow> crypt \<Rightarrow> string \<Rightarrow> string \<Rightarrow> string \<Rightarrow> string \<Rightarrow> world \<Rightarrow> (exn + user_dict) \<times> world" where
  "create_user ckey crypt salt username email password w =
     (case hash_password crypt salt password of
        Inl e \<Rightarrow> (Inl e, w)
      | Inr hashed_pw \<Rightarrow>
          get_db (\<lambda>d. bind (insert_user ckey (clock w) username email hashed_pw d) (\<lambda>(user_id, d').
                        Inr (\<lparr>ud_id = user_id, ud_username = username, ud_email = email,
                              ud_hashed_password = hashed_pw\<rparr>, d'))) w)"

definition get_user_by_username :: "(string \<Rightarrow> 'k) \<Rightarrow> string \<Rightarrow> world \<Rightarrow> (exn + user_row option) \<times> world" where
  "get_user_by_username ckey username w =
     get_db (\<lambda>d. Inr (find (\<lambda>u. ckey (u_username u) = ckey username) (users d), d)) w"

definition get_user_by_email :: "(string \<Rightarrow> 'k) \<Rightarrow> string \<Rightarrow> world \<Rightarrow> (exn + user_row option) \<times> world" where
  "get_user_by_email ckey email w =
     get_db (\<lambda>d. Inr (find (\<lambda>u. ckey (u_email u) = ckey email) (users d), d)) w"

section \<open>database.py: predictions\<close>

record loan_data =
  ld_name :: cell
  ld_features :: features

definition store_features :: "bool \<Rightarrow> features \<Rightarrow> exn + features" where
  "store_features strict f =
     bind (decimal_column strict 15 2 (annual_income f)) (\<lambda>ai.
     bind (decimal_column strict 5 4 (debt_to_income_ratio f)) (\<lambda>dti.
     bind (decimal_column strict 5 2 (credit_score f)) (\<lambda>cs.
     bind (decimal_column strict 15 2 (loan_amount f)) (\<lambda>la.
     bind (decimal_column strict 5 2 (interest_rate f)) (\<lambda>ir.
     bind (varchar_column strict 50 (gender f)) (\<lambda>g.
     bind (varchar_column strict 50 (marital_status f)) (\<lambda>ms.
     bind (varchar_column strict 100 (education_level f)) (\<lambda>el.
     bind (varchar_column strict 100 (employment_status f)) (\<lambda>es.
     bind (varchar_column strict 100 (loan_purpose f)) (\<lambda>lp.
     bind (varchar_column strict 10 (grade_subgrade f)) (\<lambda>gs.
       Inr \<lparr>annual_income = ai, debt_to_income_ratio = dti, credit_score = cs,
            loan_amount = la, interest_rate = ir, gender = g, marital_status = ms,
            education_level = el, employment_status = es, loan_purpose = lp,
            grade_subgrade = gs\<rparr>)))))))))))"

text \<open>The row that the \<^verbatim>\<open>INSERT\<close> of \<^verbatim>\<open>create_prediction\<close> stores, column by column.\<close>

definition prediction_values ::
  "bool \<Rightarrow> bool \<Rightarrow> nat \<Rightarrow> int \<Rightarrow> nat \<Rightarrow> loan_data \<Rightarrow> int \<Rightarrow> rat \<Rightarrow> string \<Rightarrow> string option
     \<Rightarrow> exn + prediction_row" where
  "prediction_values pure strict lastrowid now user_id loan_data prediction probability prediction_type batch_id =
     bind (cell_param pure (ld_name loan_data)) (\<lambda>name_param.
     bind (varchar_null_column strict 255 name_param) (\<lambda>nm.
     bind (store_features strict (ld_features loan_data)) (\<lambda>fs.
     bind (tinyint_column strict prediction) (\<lambda>pr.
     bind (decimal_column strict 5 4 probability) (\<lambda>pb.
     bind (varchar_column strict 20 prediction_type) (\<lambda>pt.
     bind (varchar_null_column strict 255 batch_id) (\<lambda>bi.
       Inr \<lparr>p_id = lastrowid, p_user_id = user_id, p_name = nm, p_features = fs,
            p_prediction = pr, p_probability = pb, p_prediction_type = pt,
            p_batch_id = bi, p_created_at = now\<rparr>)))))))"

text \<open>The \<^verbatim>\<open>INSERT\<close> itself: the foreign key on \<^verbatim>\<open>user_id\<close> is checked, the row is appended.\<close>

definition insert_prediction ::
  "bool \<Rightarrow> int \<Rightarrow> nat \<Rightarrow> loan_data \<Rightarrow> int \<Rightarrow> rat \<Rightarrow> string \<Rightarrow> string option \<Rightarrow> database
     \<Rightarrow> exn + nat \<times> database" where
  "insert_prediction pure now user_id loan_data prediction probability prediction_type batch_id d =
     (let lastrowid = next_id (map p_id (predictions d)) in
      bind (prediction_values pure (sql_strict d) lastrowid now user_id loan_data prediction probability
              prediction_type batch_id) (\<lambda>row.
        if \<not> list_ex (\<lambda>u. u_id u = user_id) (users d) then Inl IntegrityError
        else Inr (lastrowid, d\<lparr>predictions := predictions d @ [row]\<rparr>)))"

text \<open>
  \<^verbatim>\<open>create_prediction\<close>: insert, then read the row back by \<^verbatim>\<open>lastrowid\<close>. The result is the
  stored row (\<^verbatim>\<open>created_at\<close> rendered as text by \<^verbatim>\<open>isoformat\<close>, which is kept here as the
  timestamp it renders), or \<^verbatim>\<open>None\<close> when no row has that id.
\<close>

definition create_prediction ::
  "nat \<Rightarrow> loan_data \<Rightarrow> int \<Rightarrow> rat \<Rightarrow> string \<Rightarrow> string option \<Rightarrow> world \<Rightarrow> (exn + prediction_row option) \<times> world" where
  "create_prediction user_id loan_data prediction probability prediction_type batch_id w =
     get_db (\<lambda>d. bind (insert_prediction (use_pure w) (clock w) user_id loan_data prediction probability
                          prediction_type batch_id d) (\<lambda>(prediction_id, d').
                   Inr (find (\<lambda>r. p_id r = prediction_id) (predictions d'), d'))) w"

text \<open>The values of a record can be sent and fit their columns: the \<^verbatim>\<open>INSERT\<close> raises no error.\<close>

definition storable :: "bool \<Rightarrow> bool \<Rightarrow> loan_data \<Rightarrow> int \<Rightarrow> rat \<Rightarrow> string \<Rightarrow> string option \<Rightarrow> bool" where
  "storable pure strict loan_data prediction probability prediction_type batch_id =
     (\<not> isl (prediction_values pure strict 0 0 0 loan_data prediction probability prediction_type batch_id))"

text \<open>
  \<^verbatim>\<open>ORDER BY created_at DESC\<close>. The server leaves the order of rows with equal timestamps
  open; the model keeps them in table order.
\<close>

definition order_by_created_at_desc :: "prediction_row list \<Rightarrow> prediction_row list" where
  "order_by_created_at_desc rows = sort_key (\<lambda>r. - p_created_at r) rows"

text \<open>
  \<^verbatim>\<open>get_user_predictions\<close>. The loop over the fetched rows renders \<^verbatim>\<open>created_at\<close> as text and
  the \<^verbatim>\<open>Decimal\<close> columns as floats; both keep the value, which is what the rows carry here.
\<close>

definition get_user_predictions :: "nat \<Rightarrow> world \<Rightarrow> (exn + prediction_row list) \<times> world" where
  "get_user_predictions user_id w =
     get_db (\<lambda>d. Inr (order_by_created_at_desc (filter (\<lambda>r. p_user_id r = user_id) (predictions d)), d)) w"

section \<open>app.py: tokens\<close>

definition SECRET_KEY :: string where
  "SECRET_KEY = ''your-secret-key-change-in-production''"

definition ACCESS_TOKEN_EXPIRE_MINUTES :: int where
  "ACCESS_TOKEN_EXPIRE_MINUTES = 1440"

record payload =
  claim_sub :: "string option"
  claim_exp :: "int option"

text \<open>A bearer token: a string that is not a token at all, or a payload with a signature.\<close>

datatype token = Malformed | Signed payload string

datatype jwt_error = ExpiredSignatureError | InvalidSignatureError | DecodeError

type_synonym signer = "string \<Rightarrow> payload \<Rightarrow> string"

text \<open>
  Modelled from the spec: \<^verbatim>\<open>jwt.encode\<close> and \<^verbatim>\<open>jwt.decode\<close> of the PyJWT package, whose code
  is not in the repository. A token is signed under a server-held secret with a fixed
  algorithm (\<open>hs256\<close>, a parameter). Validation fails when the signature does not verify or
  the token is malformed, and with an expiry error when the current time is not before the
  encoded expiry; the signature is checked first.
\<close>

definition jwt_encode :: "signer \<Rightarrow> payload \<Rightarrow> string \<Rightarrow> token" where
  "jwt_encode hs256 p key = Signed p (hs256 key p)"

definition jwt_decode :: "signer \<Rightarrow> int \<Rightarrow> token \<Rightarrow> string \<Rightarrow> jwt_error + payload" where
  "jwt_decode hs256 now tok key =
     (case tok of
        Malformed \<Rightarrow> Inl DecodeError
      | Signed p sig \<Rightarrow>
          if sig \<noteq> hs256 key p then Inl InvalidSignatureError
          else (case claim_exp p of
                  None \<Rightarrow> Inr p
                | Some e \<Rightarrow> if e \<le> now then Inl ExpiredSignatureError else Inr p))"

text \<open>\<^verbatim>\<open>create_access_token\<close>; \<open>now\<close> is \<^verbatim>\<open>datetime.utcnow()\<close> in whole seconds.\<close>

definition create_access_token :: "signer \<Rightarrow> int \<Rightarrow> payload \<Rightarrow> token" where
  "create_access_token hs256 now data =
     (let expire = now + ACCESS_TOKEN_EXPIRE_MINUTES * 60;
          to_encode = data\<lparr>claim_exp := Some expire\<rparr>
      in jwt_encode hs256 to_encode SECRET_KEY)"

definition decode_token :: "signer \<Rightarrow> int \<Rightarrow> token \<Rightarrow> exn + payload" where
  "decode_token hs256 now tok =
     (case jwt_decode hs256 now tok SECRET_KEY of
        Inr p \<Rightarrow> Inr p
      | Inl ExpiredSignatureError \<Rightarrow> Inl (HTTPException 401 ''Token expired'')
      | Inl _ \<Rightarrow> Inl (HTTPException 401 ''Invalid token''))"

definition get_current_user :: "(string \<Rightarrow> 'k) \<Rightarrow> signer \<Rightarrow> int \<Rightarrow> token \<Rightarrow> world \<Rightarrow> (exn + user_row) \<times> world" where
  "get_current_user ckey hs256 now tok w =
     (case decode_token hs256 now tok of
        Inl e \<Rightarrow> (Inl e, w)
      | Inr p \<Rightarrow>
          (case claim_sub p of
             None \<Rightarrow> (Inl (HTTPException 401 ''Invalid token''), w)
           | Some username \<Rightarrow>
               (case get_user_by_username ckey username w of
                  (Inl e, w') \<Rightarrow> (Inl e, w')
                | (Inr None, w') \<Rightarrow> (Inl (HTTPException 401 ''User not found''), w')
                | (Inr (Some user), w') \<Rightarrow> (Inr user, w'))))"

section \<open>app.py: registration and login\<close>

record UserRegister =
  reg_username :: string
  reg_email :: string
  reg_password :: string


record Token =
  access_token :: token
  token_type :: string

definition register ::
  "(string \<Rightarrow> 'k) \<Rightarrow> crypt \<Rightarrow> string \<Rightarrow> signer \<Rightarrow> int \<Rightarrow> UserRegister \<Rightarrow> world \<Rightarrow> (exn + Token) \<times> world" where
  "register ckey crypt salt hs256 now user_data w =
     (case get_user_by_username ckey (reg_username user_data) w of
        (Inl e, w1) \<Rightarrow> (Inl e, w1)
      | (Inr (Some _), w1) \<Rightarrow> (Inl (HTTPException 400 ''Username already exists''), w1)
      | (Inr None, w1) \<Rightarrow>
          (case get_user_by_email ckey (reg_email user_data) w1 of
             (Inl e, w2) \<Rightarrow> (Inl e, w2)
           | (Inr (Some _), w2) \<Rightarrow> (Inl (HTTPException 400 ''Email already exists''), w2)
           | (Inr None, w2) \<Rightarrow>
               (case create_user ckey crypt salt (reg_username user_data) (reg_email user_data)
                       (reg_password user_data) w2 of
                  (Inl e, w3) \<Rightarrow> (Inl e, w3)
                | (Inr user, w3) \<Rightarrow>
                    (Inr \<lparr>access_token =
                            create_access_token hs256 now
                              \<lparr>claim_sub = Some (ud_username user), claim_exp = None\<rparr>,
                          token_type = ''bearer''\<rparr>, w3))))"


section \<open>app.py: inference\<close>

text \<open>
  The scorer loaded from \<^verbatim>\<open>best_pipeline.pkl\<close>: the decision and the probability of the
  positive class for one row of features. On a table it scores row by row.
\<close>

record pipeline =
  predict :: "features \<Rightarrow> int"
  predict_proba :: "features \<Rightarrow> rat"

record LoanData =
  data_name :: string
  data_features :: features

record PredictionResponse =
  resp_id :: nat
  resp_prediction :: int
  resp_probability :: rat
  resp_created_at :: int

definition predict_single :: "pipeline \<Rightarrow> LoanData \<Rightarrow> user_row \<Rightarrow> world \<Rightarrow> (exn + PredictionResponse) \<times> world" where
  "predict_single pl data current_user w =
     (let name = data_name data;
          loan_data_dict = data_features data;
          pred = predict pl loan_data_dict;
          prob = predict_proba pl loan_data_dict
      in case create_prediction (u_id current_user)
                \<lparr>ld_name = Str name, ld_features = loan_data_dict\<rparr> pred prob ''single'' None w of
           (Inl e, w') \<Rightarrow> (Inl e, w')
         | (Inr None, w') \<Rightarrow> (Inl TypeError, w')
         | (Inr (Some prediction), w') \<Rightarrow>
             (Inr \<lparr>resp_id = p_id prediction, resp_prediction = p_prediction prediction,
                   resp_probability = p_probability prediction,
                   resp_created_at = p_created_at prediction\<rparr>, w'))"

text \<open>
  The parsed upload: the cells of the \<^verbatim>\<open>name\<close> column when the table has one, and the
  feature columns row by row. Rows are labelled \<open>0, 1, ...\<close> in input order.
\<close>

record dataframe =
  name_column :: "cell list option"
  feature_rows :: "features list"

record batch_entry =
  entry_name :: cell
  entry_prediction :: int
  entry_probability :: rat

record batch_response =
  br_batch_id :: string
  br_count :: nat
  br_predictions :: "batch_entry list"

text \<open>Indexing a Python list with a row label.\<close>

definition py_index :: "'a list \<Rightarrow> nat \<Rightarrow> exn + 'a" where
  "py_index xs i = (if i < length xs then Inr (xs ! i) else Inl IndexError)"

text \<open>The \<^verbatim>\<open>for idx, row in df_for_prediction.iterrows()\<close> loop; \<open>acc\<close> is the list \<^verbatim>\<open>predictions\<close>.\<close>

fun batch_loop ::
  "nat \<Rightarrow> cell list \<Rightarrow> int list \<Rightarrow> rat list \<Rightarrow> string \<Rightarrow> (nat \<times> features) list \<Rightarrow> batch_entry list \<Rightarrow> world
     \<Rightarrow> (exn + batch_entry list) \<times> world" where
  "batch_loop user_id names preds probs bid [] acc w = (Inr acc, w)"
| "batch_loop user_id names preds probs bid ((idx, row) # rest) acc w =
     (case py_index names idx of
        Inl e \<Rightarrow> (Inl e, w)
      | Inr nm \<Rightarrow>
          (case py_index preds idx of
             Inl e \<Rightarrow> (Inl e, w)
           | Inr pred \<Rightarrow>
               (case py_index probs idx of
                  Inl e \<Rightarrow> (Inl e, w)
                | Inr prob \<Rightarrow>
                    (case create_prediction user_id \<lparr>ld_name = nm, ld_features = row\<rparr> pred prob
                            ''batch'' (Some bid) w of
                       (Inl e, w') \<Rightarrow> (Inl e, w')
                     | (Inr _, w') \<Rightarrow>
                         batch_loop user_id names preds probs bid rest
                           (acc @ [\<lparr>entry_name = nm, entry_prediction = pred,
                                    entry_probability = prob\<rparr>]) w'))))"

text \<open>
  \<^verbatim>\<open>predict_batch\<close>. \<open>uuid4 k\<close> is the text of the identifier that the \<open>k\<close>-th call of
  \<^verbatim>\<open>uuid.uuid4()\<close> in this process returns; the handler makes one call per request.
\<close>

definition predict_batch :: "pipeline \<Rightarrow> (nat \<Rightarrow> string) \<Rightarrow> dataframe \<Rightarrow> user_row \<Rightarrow> world \<Rightarrow> (exn + batch_response) \<times> world" where
  "predict_batch pl uuid4 df current_user w =
     (let rows = feature_rows df;
          names = (case name_column df of
                     Some cells \<Rightarrow> cells
                   | None \<Rightarrow> replicate (length rows) (Str ''Unknown''));
          preds = map (predict pl) rows;
          probs = map (predict_proba pl) rows;
          batch_id = uuid4 (uuid_drawn w);
          w0 = w\<lparr>uuid_drawn := Suc (uuid_drawn w)\<rparr>
      in case batch_loop (u_id current_user) names preds probs batch_id
                (zip [0..<length rows] rows) [] w0 of
           (Inl e, w') \<Rightarrow> (Inl e, w')
         | (Inr entries, w') \<Rightarrow>
             (Inr \<lparr>br_batch_id = batch_id, br_count = length entries, br_predictions = entries\<rparr>, w'))"

text \<open>
  What the client of \<^verbatim>\<open>POST /predict_batch\<close> receives. The framework renders the value that
  the handler returns as JSON and refuses NaN, which JSON cannot express: the rendering
  raises \<open>ValueError\<close> and the request ends as an internal error, after the handler's inserts
  were committed.
\<close>

definition nan_not_json :: string where
  "nan_not_json = ''Out of range float values are not JSON compliant''"

definition post_predict_batch :: "pipeline \<Rightarrow> (nat \<Rightarrow> string) \<Rightarrow> dataframe \<Rightarrow> user_row \<Rightarrow> world \<Rightarrow> (exn + batch_response) \<times> world" where
  "post_predict_batch pl uuid4 df current_user w =
     (case predict_batch pl uuid4 df current_user w of
        (Inl e, w') \<Rightarrow> (Inl e, w')
      | (Inr resp, w') \<Rightarrow>
          if list_ex (\<lambda>e. entry_name e = NaN) (br_predictions resp)
          then (Inl (ValueError nan_not_json), w')
          else (Inr resp, w'))"

text \<open>
  Every \<open>batch_id\<close> in the table is the identifier of one of the calls of \<^verbatim>\<open>uuid.uuid4()\<close> made
  so far.
\<close>

definition batch_ids_drawn :: "(nat \<Rightarrow> string) \<Rightarrow> world \<Rightarrow> bool" where
  "batch_ids_drawn uuid4 w =
     list_all (\<lambda>r. case p_batch_id r of
                      None \<Rightarrow> True
                    | Some b \<Rightarrow> list_ex (\<lambda>k. uuid4 k = b) [0..<uuid_drawn w])
       (predictions (db w))"

definition get_history :: "user_row \<Rightarrow> world \<Rightarrow> (exn + prediction_row list) \<times> world" where
  "get_history current_user w = get_user_predictions (u_id current_user) w"

section \<open>Concrete values for the examples\<close>

text \<open>
  Stand-ins for the parameters, used where a statement is evaluated on a concrete input:
  a collation key that folds ASCII case, a key derivation and a signature that only
  concatenate their arguments, and a scorer with a fixed answer.
\<close>

definition ascii_ci :: "string \<Rightarrow> string" where
  "ascii_ci s = map (\<lambda>c. let n = (of_char c :: nat) in if 65 \<le> n \<and> n \<le> 90 then char_of (n + 32) else c) s"

definition toy_crypt :: crypt where
  "toy_crypt version cost raw_salt password =
     (if 4 \<le> cost \<and> cost \<le> 31 then Some (''$'' @ version @ ''$12$'' @ raw_salt @ password) else None)"

definition toy_hs256 :: signer where
  "toy_hs256 key p = key @ ''.'' @ (case claim_sub p of None \<Rightarrow> [] | Some s \<Rightarrow> s)"

definition toy_salt :: string where
  "toy_salt = ''$2b$12$abcdefghijklmnopqrstuv''"

definition toy_pipeline :: pipeline where
  "toy_pipeline = \<lparr>predict = (\<lambda>f. 1), predict_proba = (\<lambda>f. 63 / 64)\<rparr>"

definition alice_features :: features where
  "alice_features =
     \<lparr>annual_income = 90000, debt_to_income_ratio = 1 / 4, credit_score = 750,
      loan_amount = 20000, interest_rate = 5, gender = ''Female'', marital_status = ''Single'',
      education_level = ''Bachelor'', employment_status = ''Employed'', loan_purpose = ''Home'',
      grade_subgrade = ''A1''\<rparr>"

definition alice :: user_row where
  "alice = \<lparr>u_id = 1, u_username = ''alice'', u_email = ''alice@x.com'',
            u_hashed_password = ''$2b$12$abcdefghijklmnopqrstuvpw123'', u_created_at = 0\<rparr>"

definition empty_world :: world where
  "empty_world =
     \<lparr>connection_pool = None, db_up = True,
      db = \<lparr>users = [], predictions = [], sql_strict = True\<rparr>, clock = 1000, events = [],
      use_pure = False, uuid_drawn = 0\<rparr>"

definition alice_world :: world where
  "alice_world = empty_world\<lparr>db := \<lparr>users = [alice], predictions = [], sql_strict = True\<rparr>\<rparr>"

definition toy_row :: "nat \<Rightarrow> nat \<Rightarrow> int \<Rightarrow> prediction_row" where
  "toy_row i uid t =
     \<lparr>p_id = i, p_user_id = uid, p_name = Some ''Alice'', p_features = alice_features,
      p_prediction = 1, p_probability = 2461 / 2500, p_prediction_type = ''single'',
      p_batch_id = None, p_created_at = t\<rparr>"

definition history_world :: world where
  "history_world =
     empty_world\<lparr>db := \<lparr>users = [alice], predictions = [toy_row 1 1 10, toy_row 2 2 20, toy_row 3 1 30],
                         sql_strict = True\<rparr>\<rparr>"

definition toy_uuid :: string where
  "toy_uuid = ''123e4567-e89b-42d3-a456-426614174000''"

definition other_uuid :: string where
  "other_uuid = ''9b2f0c1e-7d4a-4e5b-8f6a-0c1d2e3f4a5b''"

text \<open>Two sequences of identifiers: one whose first two draws differ, and one that repeats.\<close>

definition toy_uuid4 :: "nat \<Rightarrow> string" where
  "toy_uuid4 k = (if k = 0 then toy_uuid else other_uuid)"

definition repeating_uuid4 :: "nat \<Rightarrow> string" where
  "repeating_uuid4 k = toy_uuid"

text \<open>A second row whose grade does not fit \<^verbatim>\<open>VARCHAR(10)\<close>.\<close>

definition frame_with_long_grade :: dataframe where
  "frame_with_long_grade =
     \<lparr>name_column = None,
      feature_rows = [alice_features, alice_features\<lparr>grade_subgrade := ''A1-provisional''\<rparr>]\<rparr>"

definition long_password :: string where
  "long_password = replicate 73 (CHR ''a'')"

definition frame_without_names :: dataframe where
  "frame_without_names = \<lparr>name_column = None, feature_rows = [alice_features, alice_features]\<rparr>"


definition after_first_batch :: world where
  "after_first_batch = snd (post_predict_batch toy_pipeline toy_uuid4 frame_without_names alice alice_world)"

section \<open>Auxiliary facts\<close>

lemma get_db_available:
  assumes "db_available w"
  shows "get_db body w =
     (case body (db w) of
        Inr (v, d) \<Rightarrow>
          (Inr v, w\<lparr>connection_pool := pool_after_init w, db := d,
                    events := events w @ init_events w @ [GetConnection, OpenCursor, Commit, CursorClose, ConnClose]\<rparr>)
      | Inl e \<Rightarrow>
          (Inl e, w\<lparr>connection_pool := pool_after_init w,
                    events := events w @ init_events w @ [GetConnection, OpenCursor, Rollback, CursorClose, ConnClose]\<rparr>))"
proof (cases "connection_pool w")
  case None
  with assms show ?thesis
    by (simp add: get_db_def db_available_def init_connection_pool_def get_connection_def log_def
        commit_def rollback_def release_def pool_after_init_def init_events_def pool_size_def
        split: sum.splits prod.splits)
next
  case (Some free)
  with assms have "free \<noteq> 0" "db_up w"
    by (auto simp: db_available_def)
  with Some show ?thesis
    by (cases free)
      (simp_all add: get_db_def get_connection_def log_def commit_def rollback_def release_def
        pool_after_init_def init_events_def split: sum.splits prod.splits)
qed

lemma bind_Inr_iff: "bind r f = Inr y \<longleftrightarrow> (\<exists>v. r = Inr v \<and> f v = Inr y)"
  by (cases r) (simp_all add: bind_def)

lemma bind_Inr [simp]: "bind (Inr v) f = f v"
  by (simp add: bind_def)

lemma bind_Inl [simp]: "bind (Inl e) f = Inl e"
  by (simp add: bind_def)

lemma get_db_Inr:
  assumes "get_db body w = (Inr v, w')"
  shows "\<exists>d. body (db w) = Inr (v, d) \<and> db w' = d \<and> clock w' = clock w \<and> db_up w' = db_up w
           \<and> use_pure w' = use_pure w \<and> uuid_drawn w' = uuid_drawn w \<and> db_available w"
  using assms
  by (auto simp: get_db_def Let_def init_connection_pool_def get_connection_def log_def commit_def
      rollback_def release_def db_available_def pool_size_def
      split: sum.splits option.splits if_splits prod.splits)

lemma get_db_Inl_db:
  assumes "get_db body w = (Inl e, w')"
  shows "db w' = db w \<and> clock w' = clock w \<and> db_up w' = db_up w
           \<and> use_pure w' = use_pure w \<and> uuid_drawn w' = uuid_drawn w"
  using assms
  by (auto simp: get_db_def Let_def init_connection_pool_def get_connection_def log_def commit_def
      rollback_def release_def 
      split: sum.splits option.splits if_splits prod.splits)

lemma get_db_pool:
  "connection_pool (snd (get_db body w)) =
     (if connection_pool w = None \<and> db_up w then Some pool_size else connection_pool w)"
  by (auto simp: get_db_def Let_def init_connection_pool_def get_connection_def log_def commit_def
      rollback_def release_def
      split: sum.splits option.splits if_splits prod.splits)

lemma foldr_max_ge: "x \<in> set ids \<Longrightarrow> x \<le> foldr max ids (0::nat)"
  by (induction ids) auto

lemma next_id_fresh: "x \<in> set ids \<Longrightarrow> x < next_id ids"
  by (simp add: next_id_def foldr_max_ge less_Suc_eq_le)

lemma foldr_max_snoc: "foldr max (ids @ [n]) (0::nat) = max (foldr max ids 0) n"
  by (induction ids) auto

lemma next_id_snoc: "next_id (ids @ [next_id ids]) = Suc (next_id ids)"
  by (simp add: next_id_def foldr_max_snoc del: foldr_append)

lemma find_snoc_new: "\<forall>x\<in>set xs. \<not> P x \<Longrightarrow> P y \<Longrightarrow> find P (xs @ [y]) = Some y"
  by (induction xs) auto

lemma prediction_values_Inr:
  assumes "prediction_values pure strict i now uid ld pred prob ty bid = Inr row"
  shows "p_id row = i" "p_user_id row = uid" "p_created_at row = now"
    "bind (cell_param pure (ld_name ld)) (varchar_null_column strict 255) = Inr (p_name row)"
    "store_features strict (ld_features ld) = Inr (p_features row)"
    "tinyint_column strict pred = Inr (p_prediction row)"
    "decimal_column strict 5 4 prob = Inr (p_probability row)"
    "varchar_column strict 20 ty = Inr (p_prediction_type row)"
    "varchar_null_column strict 255 bid = Inr (p_batch_id row)"
  using assms by (auto simp: prediction_values_def bind_Inr_iff)

lemma create_prediction_Inr:
  assumes "create_prediction uid ld pred prob ty bid w = (Inr r, w')"
  shows "\<exists>row. prediction_values (use_pure w) (sql_strict (db w))
                  (next_id (map p_id (predictions (db w)))) (clock w)
                  uid ld pred prob ty bid = Inr row
           \<and> r = Some row
           \<and> db w' = (db w)\<lparr>predictions := predictions (db w) @ [row]\<rparr>
           \<and> clock w' = clock w
           \<and> use_pure w' = use_pure w
           \<and> uuid_drawn w' = uuid_drawn w"
proof -
  let ?n = "next_id (map p_id (predictions (db w)))"
  from get_db_Inr [OF assms [unfolded create_prediction_def]]
  obtain d where body: "bind (insert_prediction (use_pure w) (clock w) uid ld pred prob ty bid (db w))
        (\<lambda>(prediction_id, d'). Inr (find (\<lambda>r. p_id r = prediction_id) (predictions d'), d')) = Inr (r, d)"
    and w': "db w' = d" "clock w' = clock w" "use_pure w' = use_pure w" "uuid_drawn w' = uuid_drawn w"
    by blast
  from body obtain row where
    row: "prediction_values (use_pure w) (sql_strict (db w)) ?n (clock w) uid ld pred prob ty bid = Inr row"
    and d: "d = (db w)\<lparr>predictions := predictions (db w) @ [row]\<rparr>"
    and r: "r = find (\<lambda>r. p_id r = ?n) (predictions (db w) @ [row])"
    by (auto simp: insert_prediction_def bind_Inr_iff Let_def split: if_splits)
  have id: "p_id row = ?n"
    using prediction_values_Inr(1) [OF row] .
  have "\<forall>x\<in>set (predictions (db w)). p_id x \<noteq> ?n"
    using next_id_fresh [of _ "map p_id (predictions (db w))"] by fastforce
  then have "r = Some row"
    unfolding r using id by (intro find_snoc_new) auto
  with row d w' show ?thesis by blast
qed

lemma floor_rat_numeral: "\<lfloor>numeral a / numeral b :: rat\<rfloor> = numeral a div numeral b"
  by (metis floor_divide_of_int_eq of_int_numeral)

lemma round_half_away_unit:
  assumes "0 \<le> x" "x \<le> 1"
  shows "\<bar>round_half_away 4 x\<bar> \<le> (10 ^ 5 - 1) / 10 ^ 4"
proof -
  define k where "k = rat_of_int \<lfloor>x * 10 ^ 4 + 1 / 2\<rfloor>"
  have y: "0 \<le> x * 10 ^ 4 + 1 / 2" "x * 10 ^ 4 + 1 / 2 \<le> 20001 / 2"
    using assms by simp_all
  have "k \<le> x * 10 ^ 4 + 1 / 2"
    unfolding k_def by (rule of_int_floor_le)
  with y have up: "k \<le> 20001 / 2" by linarith
  have "0 \<le> \<lfloor>x * 10 ^ 4 + 1 / 2\<rfloor>"
    using y(1) by (simp only: zero_le_floor)
  then have lo: "0 \<le> k"
    unfolding k_def by (simp only: of_int_0_le_iff)
  have r: "round_half_away 4 x = k / 10 ^ 4"
    using assms by (simp add: round_half_away_def k_def)
  show ?thesis
    unfolding r using lo up by simp
qed

lemma decimal_probability:
  assumes "0 \<le> x" "x \<le> 1"
  shows "decimal_column strict 5 4 x = Inr (round_half_away 4 x)"
  using round_half_away_unit [OF assms] by (simp add: decimal_column_def Let_def)

lemma tinyint_bit: "n \<in> {0, 1} \<Longrightarrow> tinyint_column strict n = Inr n"
  by (auto simp: tinyint_column_def)


lemma toy_single:
  "fst (predict_single toy_pipeline \<lparr>data_name = ''Alice'', data_features = alice_features\<rparr> alice alice_world)
     = Inr \<lparr>resp_id = 1, resp_prediction = 1, resp_probability = 2461 / 2500, resp_created_at = 1000\<rparr>"
  by (simp add: predict_single_def toy_pipeline_def alice_features_def alice_def alice_world_def
      empty_world_def create_prediction_def get_db_def init_connection_pool_def get_connection_def
      log_def commit_def rollback_def release_def insert_prediction_def prediction_values_def
      store_features_def decimal_column_def round_half_away_def tinyint_column_def
      varchar_column_def varchar_null_column_def cell_param_def next_id_def pool_size_def Let_def
      floor_rat_numeral)

lemma not_a_hash: "bcrypt_fields ''not-a-hash'' = None"
  by (simp add: bcrypt_fields_def)





lemma get_db_read:
  assumes "db_available w"
  shows "fst (get_db (\<lambda>d. Inr (f d, d)) w) = Inr (f (db w))"
    and "db (snd (get_db (\<lambda>d. Inr (f d, d)) w)) = db w"
    and "db_available (snd (get_db (\<lambda>d. Inr (f d, d)) w))"
    and "clock (snd (get_db (\<lambda>d. Inr (f d, d)) w)) = clock w"
  using assms
  by (auto simp: get_db_available pool_after_init_def db_available_def pool_size_def)

lemma unique_count:
  assumes "distinct (map (\<lambda>u. k (g u)) xs)" and "list_ex (\<lambda>u. g u = v) xs"
  shows "length (filter (\<lambda>u. g u = v) xs) = 1"
  using assms
proof (induction xs)
  case Nil
  then show ?case by simp
next
  case (Cons x xs)
  show ?case
  proof (cases "g x = v")
    case True
    have "filter (\<lambda>u. g u = v) xs = []"
      using Cons.prems(1) True by (auto simp: filter_empty_conv image_iff)
    with True show ?thesis by simp
  next
    case False
    with Cons show ?thesis by simp
  qed
qed

lemma find_list_ex: "list_ex P xs \<Longrightarrow> \<exists>x. find P xs = Some x"
  by (cases "find P xs") (auto simp: find_None_iff list_ex_iff)

lemma find_not_list_ex: "\<not> list_ex P xs \<Longrightarrow> find P xs = None"
  by (simp add: find_None_iff list_ex_iff)

lemma list_ex_key: "list_ex (\<lambda>u. g u = v) xs \<Longrightarrow> list_ex (\<lambda>u. k (g u) = k v) xs"
  by (auto simp: list_ex_iff)

lemma order_by_created_at_desc_sorted:
  "sorted_wrt (\<lambda>a b. p_created_at b \<le> p_created_at a) (order_by_created_at_desc rows)"
proof -
  have "sorted (map (\<lambda>r. - p_created_at r) (order_by_created_at_desc rows))"
    unfolding order_by_created_at_desc_def by (rule sorted_sort_key)
  then show ?thesis
    by (simp add: sorted_map)
qed

lemma py_index_Inr: "py_index xs i = Inr v \<longleftrightarrow> i < length xs \<and> v = xs ! i"
  by (auto simp: py_index_def)

lemma batch_loop_Inr:
  assumes "batch_loop uid names preds probs bid items acc w = (Inr out, w')"
  shows "\<exists>new. predictions (db w') = predictions (db w) @ new
           \<and> users (db w') = users (db w)
           \<and> sql_strict (db w') = sql_strict (db w)
           \<and> clock w' = clock w
           \<and> use_pure w' = use_pure w
           \<and> uuid_drawn w' = uuid_drawn w
           \<and> length new = length items
           \<and> out = acc @ map (\<lambda>(idx, row). \<lparr>entry_name = names ! idx, entry_prediction = preds ! idx,
                                   entry_probability = probs ! idx\<rparr>) items
           \<and> (\<forall>j<length items.
                 prediction_values (use_pure w) (sql_strict (db w))
                   (next_id (map p_id (predictions (db w))) + j)
                   (clock w) uid \<lparr>ld_name = names ! fst (items ! j), ld_features = snd (items ! j)\<rparr>
                   (preds ! fst (items ! j)) (probs ! fst (items ! j)) ''batch'' (Some bid)
                 = Inr (new ! j))"
  using assms
proof (induction items arbitrary: acc w)
  case Nil
  then show ?case by simp
next
  case (Cons it items)
  obtain idx row where it: "it = (idx, row)" by force
  let ?n = "next_id (map p_id (predictions (db w)))"
  let ?entry = "\<lparr>entry_name = names ! idx, entry_prediction = preds ! idx, entry_probability = probs ! idx\<rparr>"
  from Cons.prems obtain r w1 where
    cp: "create_prediction uid \<lparr>ld_name = names ! idx, ld_features = row\<rparr> (preds ! idx) (probs ! idx)
           ''batch'' (Some bid) w = (Inr r, w1)"
    and rest: "batch_loop uid names preds probs bid items (acc @ [?entry]) w1 = (Inr out, w')"
    by (auto simp: it py_index_Inr split: sum.splits prod.splits)
  from create_prediction_Inr [OF cp] obtain row0 where
    row0: "prediction_values (use_pure w) (sql_strict (db w)) ?n (clock w) uid
             \<lparr>ld_name = names ! idx, ld_features = row\<rparr> (preds ! idx) (probs ! idx) ''batch'' (Some bid)
           = Inr row0"
    and d1: "db w1 = (db w)\<lparr>predictions := predictions (db w) @ [row0]\<rparr>"
    and c1: "clock w1 = clock w"
    and p1: "use_pure w1 = use_pure w"
    and g1: "uuid_drawn w1 = uuid_drawn w"
    by blast
  have id0: "p_id row0 = ?n"
    using prediction_values_Inr(1) [OF row0] .
  have n1: "next_id (map p_id (predictions (db w1))) = Suc ?n"
    using next_id_snoc [of "map p_id (predictions (db w))"] by (simp add: d1 id0)
  from Cons.IH [OF rest] obtain new' where
    p': "predictions (db w') = predictions (db w1) @ new'"
    and u': "users (db w') = users (db w1)"
    and s': "sql_strict (db w') = sql_strict (db w1)"
    and c': "clock w' = clock w1"
    and q': "use_pure w' = use_pure w1"
    and g': "uuid_drawn w' = uuid_drawn w1"
    and l': "length new' = length items"
    and o': "out = (acc @ [?entry]) @ map (\<lambda>(idx, row). \<lparr>entry_name = names ! idx,
               entry_prediction = preds ! idx, entry_probability = probs ! idx\<rparr>) items"
    and v': "\<forall>j<length items.
                 prediction_values (use_pure w1) (sql_strict (db w1))
                   (next_id (map p_id (predictions (db w1))) + j)
                   (clock w1) uid \<lparr>ld_name = names ! fst (items ! j), ld_features = snd (items ! j)\<rparr>
                   (preds ! fst (items ! j)) (probs ! fst (items ! j)) ''batch'' (Some bid)
                 = Inr (new' ! j)"
    by blast
  have vals: "prediction_values (use_pure w) (sql_strict (db w)) (?n + j)
                   (clock w) uid \<lparr>ld_name = names ! fst ((it # items) ! j), ld_features = snd ((it # items) ! j)\<rparr>
                   (preds ! fst ((it # items) ! j)) (probs ! fst ((it # items) ! j)) ''batch'' (Some bid)
                 = Inr ((row0 # new') ! j)"
    if "j < length (it # items)" for j
  proof (cases j)
    case 0
    then show ?thesis using row0 by (simp add: it)
  next
    case (Suc k)
    with that have k: "k < length items" by simp
    have s1: "sql_strict (db w1) = sql_strict (db w)"
      by (simp add: d1)
    from v' k show ?thesis
      unfolding n1 s1 c1 p1 by (simp add: Suc)
  qed
  have "predictions (db w') = predictions (db w) @ (row0 # new')"
    using p' d1 by simp
  moreover have "users (db w') = users (db w)" "sql_strict (db w') = sql_strict (db w)"
    "clock w' = clock w" "use_pure w' = use_pure w" "uuid_drawn w' = uuid_drawn w"
    "length (row0 # new') = length (it # items)"
    using u' s' c' q' g' l' d1 c1 p1 g1 by simp_all
  moreover have "out = acc @ map (\<lambda>(idx, row). \<lparr>entry_name = names ! idx, entry_prediction = preds ! idx,
                                   entry_probability = probs ! idx\<rparr>) (it # items)"
    using o' by (simp add: it)
  ultimately show ?case using vals by blast
qed

lemma predict_batch_Inr:
  assumes "predict_batch pl uuid4 df current_user w = (Inr resp, w')"
  defines "names \<equiv> (case name_column df of Some cells \<Rightarrow> cells
                     | None \<Rightarrow> replicate (length (feature_rows df)) (Str ''Unknown''))"
  shows "\<exists>new. predictions (db w') = predictions (db w) @ new
           \<and> users (db w') = users (db w)
           \<and> uuid_drawn w' = Suc (uuid_drawn w)
           \<and> length new = length (feature_rows df)
           \<and> resp = \<lparr>br_batch_id = uuid4 (uuid_drawn w), br_count = length (feature_rows df),
                      br_predictions = map (\<lambda>j. \<lparr>entry_name = names ! j,
                          entry_prediction = predict pl (feature_rows df ! j),
                          entry_probability = predict_proba pl (feature_rows df ! j)\<rparr>)
                        [0..<length (feature_rows df)]\<rparr>
           \<and> (\<forall>j<length (feature_rows df).
                 prediction_values (use_pure w) (sql_strict (db w))
                   (next_id (map p_id (predictions (db w))) + j)
                   (clock w) (u_id current_user)
                   \<lparr>ld_name = names ! j, ld_features = feature_rows df ! j\<rparr>
                   (predict pl (feature_rows df ! j)) (predict_proba pl (feature_rows df ! j))
                   ''batch'' (Some (uuid4 (uuid_drawn w)))
                 = Inr (new ! j))"
proof -
  let ?rows = "feature_rows df"
  let ?items = "zip [0..<length ?rows] ?rows"
  let ?bid = "uuid4 (uuid_drawn w)"
  let ?w0 = "w\<lparr>uuid_drawn := Suc (uuid_drawn w)\<rparr>"
  from assms(1) obtain out where
    loop: "batch_loop (u_id current_user) names (map (predict pl) ?rows) (map (predict_proba pl) ?rows)
             ?bid ?items [] ?w0 = (Inr out, w')"
    and resp: "resp = \<lparr>br_batch_id = ?bid, br_count = length out, br_predictions = out\<rparr>"
    by (auto simp: predict_batch_def names_def Let_def split: prod.splits sum.splits)
  from batch_loop_Inr [OF loop] obtain new where
    p: "predictions (db w') = predictions (db w) @ new"
    and u: "users (db w') = users (db w)"
    and g: "uuid_drawn w' = Suc (uuid_drawn w)"
    and l: "length new = length ?items"
    and o: "out = [] @ map (\<lambda>(idx, row). \<lparr>entry_name = names ! idx,
               entry_prediction = map (predict pl) ?rows ! idx,
               entry_probability = map (predict_proba pl) ?rows ! idx\<rparr>) ?items"
    and v: "\<forall>j<length ?items.
                 prediction_values (use_pure w) (sql_strict (db w))
                   (next_id (map p_id (predictions (db w))) + j)
                   (clock w) (u_id current_user)
                   \<lparr>ld_name = names ! fst (?items ! j), ld_features = snd (?items ! j)\<rparr>
                   (map (predict pl) ?rows ! fst (?items ! j))
                   (map (predict_proba pl) ?rows ! fst (?items ! j)) ''batch'' (Some ?bid)
                 = Inr (new ! j)"
    by auto
  have out: "out = map (\<lambda>j. \<lparr>entry_name = names ! j,
                          entry_prediction = predict pl (?rows ! j),
                          entry_probability = predict_proba pl (?rows ! j)\<rparr>) [0..<length ?rows]"
    unfolding o by (rule nth_equalityI) simp_all
  have "length out = length ?rows"
    unfolding out by simp
  with resp out have "resp = \<lparr>br_batch_id = ?bid, br_count = length ?rows,
                      br_predictions = map (\<lambda>j. \<lparr>entry_name = names ! j,
                          entry_prediction = predict pl (?rows ! j),
                          entry_probability = predict_proba pl (?rows ! j)\<rparr>) [0..<length ?rows]\<rparr>"
    by simp
  moreover have "length new = length ?rows"
    using l by simp
  moreover have "\<forall>j<length ?rows.
                 prediction_values (use_pure w) (sql_strict (db w))
                   (next_id (map p_id (predictions (db w))) + j)
                   (clock w) (u_id current_user)
                   \<lparr>ld_name = names ! j, ld_features = ?rows ! j\<rparr>
                   (predict pl (?rows ! j)) (predict_proba pl (?rows ! j)) ''batch'' (Some ?bid)
                 = Inr (new ! j)"
    using v by simp
  ultimately show ?thesis
    using p u g by blast
qed

text \<open>
  Whatever the outcome of the loop, the records it has stored are appended to the table and
  carry the identifier of the request.
\<close>

lemma create_prediction_stored:
  assumes "create_prediction uid ld pred prob ty bid w = (res, w')"
  shows "uuid_drawn w' = uuid_drawn w
       \<and> (predictions (db w') = predictions (db w)
          \<or> (\<exists>row. predictions (db w') = predictions (db w) @ [row]
                \<and> varchar_null_column (sql_strict (db w)) 255 bid = Inr (p_batch_id row)))"
proof (cases res)
  case (Inl e)
  with assms have "get_db (\<lambda>d. bind (insert_prediction (use_pure w) (clock w) uid ld pred prob ty bid d)
        (\<lambda>(prediction_id, d'). Inr (find (\<lambda>r. p_id r = prediction_id) (predictions d'), d'))) w
      = (Inl e, w')"
    by (simp add: create_prediction_def)
  from get_db_Inl_db [OF this] show ?thesis by simp
next
  case (Inr r)
  from create_prediction_Inr [OF assms [unfolded Inr]] obtain row where
    row: "prediction_values (use_pure w) (sql_strict (db w))
            (next_id (map p_id (predictions (db w)))) (clock w) uid ld pred prob ty bid = Inr row"
    and d: "db w' = (db w)\<lparr>predictions := predictions (db w) @ [row]\<rparr>"
    and g: "uuid_drawn w' = uuid_drawn w"
    by blast
  show ?thesis
    using prediction_values_Inr(9) [OF row] d g by simp
qed

lemma batch_loop_stored:
  assumes "batch_loop uid names preds probs bid items acc w = (res, w')"
    and "length bid \<le> 255"
  shows "\<exists>new. predictions (db w') = predictions (db w) @ new
           \<and> list_all (\<lambda>r. p_batch_id r = Some bid) new
           \<and> length new \<le> length items
           \<and> uuid_drawn w' = uuid_drawn w"
  using assms(1)
proof (induction items arbitrary: acc w)
  case Nil
  then show ?case by simp
next
  case (Cons it items)
  obtain idx row where it: "it = (idx, row)" by force
  let ?entry = "\<lparr>entry_name = names ! idx, entry_prediction = preds ! idx, entry_probability = probs ! idx\<rparr>"
  show ?case
  proof (cases "idx < length names \<and> idx < length preds \<and> idx < length probs")
    case False
    with Cons.prems have "w' = w"
      by (auto simp: it py_index_def split: if_splits)
    then show ?thesis by simp
  next
    case True
    obtain r w1 where
      cp: "create_prediction uid \<lparr>ld_name = names ! idx, ld_features = row\<rparr> (preds ! idx) (probs ! idx)
             ''batch'' (Some bid) w = (r, w1)"
      by force
    from create_prediction_stored [OF cp] assms(2) have g1: "uuid_drawn w1 = uuid_drawn w"
      and st: "predictions (db w1) = predictions (db w)
          \<or> (\<exists>row. predictions (db w1) = predictions (db w) @ [row] \<and> p_batch_id row = Some bid)"
      by (auto simp: varchar_null_column_def varchar_column_def)
    show ?thesis
    proof (cases r)
      case (Inl e)
      with Cons.prems cp True have w': "w' = w1"
        by (simp add: it py_index_def)
      from st show ?thesis
      proof
        assume "predictions (db w1) = predictions (db w)"
        then show ?thesis using w' g1 by simp
      next
        assume "\<exists>row. predictions (db w1) = predictions (db w) @ [row] \<and> p_batch_id row = Some bid"
        then obtain row0 where "predictions (db w1) = predictions (db w) @ [row0]"
          "p_batch_id row0 = Some bid" by blast
        then show ?thesis
          using w' g1 by (intro exI [of _ "[row0]"]) simp
      qed
    next
      case (Inr v)
      with Cons.prems cp True have
        rest: "batch_loop uid names preds probs bid items (acc @ [?entry]) w1 = (res, w')"
        by (simp add: it py_index_def)
      from Cons.IH [OF rest] obtain new' where
        p': "predictions (db w') = predictions (db w1) @ new'"
        and b': "list_all (\<lambda>r. p_batch_id r = Some bid) new'"
        and l': "length new' \<le> length items"
        and g': "uuid_drawn w' = uuid_drawn w1"
        by blast
      from st show ?thesis
      proof
        assume "predictions (db w1) = predictions (db w)"
        then show ?thesis
          using p' b' l' g' g1 by (intro exI [of _ new']) simp
      next
        assume "\<exists>row. predictions (db w1) = predictions (db w) @ [row] \<and> p_batch_id row = Some bid"
        then obtain row0 where "predictions (db w1) = predictions (db w) @ [row0]"
          "p_batch_id row0 = Some bid" by blast
        then show ?thesis
          using p' b' l' g' g1 by (intro exI [of _ "row0 # new'"]) simp
      qed
    qed
  qed
qed

text \<open>
  The handlers that write predictions keep every stored \<open>batch_id\<close> among the identifiers
  drawn so far: \<open>predict_single\<close> stores no \<open>batch_id\<close>, and \<open>predict_batch\<close> stores only the
  identifier it has just drawn, also when it ends with an exception.
\<close>

lemma batch_ids_drawn_append:
  assumes "batch_ids_drawn uuid4 w"
    and "predictions (db w') = predictions (db w) @ new"
    and "uuid_drawn w \<le> uuid_drawn w'"
    and "list_all (\<lambda>r. case p_batch_id r of None \<Rightarrow> True
                          | Some b \<Rightarrow> list_ex (\<lambda>k. uuid4 k = b) [0..<uuid_drawn w']) new"
  shows "batch_ids_drawn uuid4 w'"
proof -
  have "list_ex (\<lambda>k. uuid4 k = b) [0..<uuid_drawn w']"
    if "list_ex (\<lambda>k. uuid4 k = b) [0..<uuid_drawn w]" for b
    using that assms(3) by (auto simp: list_ex_iff)
  then have "list_all (\<lambda>r. case p_batch_id r of None \<Rightarrow> True
                          | Some b \<Rightarrow> list_ex (\<lambda>k. uuid4 k = b) [0..<uuid_drawn w']) (predictions (db w))"
    using assms(1) by (auto simp: batch_ids_drawn_def list_all_iff split: option.splits)
  with assms(2,4) show ?thesis
    by (simp add: batch_ids_drawn_def)
qed

lemma predict_batch_keeps_batch_ids_drawn:
  assumes "batch_ids_drawn uuid4 w"
    and "length (uuid4 (uuid_drawn w)) \<le> 255"
  shows "batch_ids_drawn uuid4 (snd (predict_batch pl uuid4 df current_user w))"
proof -
  let ?rows = "feature_rows df"
  let ?names = "case name_column df of Some cells \<Rightarrow> cells
                | None \<Rightarrow> replicate (length ?rows) (Str ''Unknown'')"
  let ?bid = "uuid4 (uuid_drawn w)"
  let ?w0 = "w\<lparr>uuid_drawn := Suc (uuid_drawn w)\<rparr>"
  obtain res w' where
    loop: "batch_loop (u_id current_user) ?names (map (predict pl) ?rows) (map (predict_proba pl) ?rows)
             ?bid (zip [0..<length ?rows] ?rows) [] ?w0 = (res, w')"
    by force
  then have snd: "snd (predict_batch pl uuid4 df current_user w) = w'"
    by (cases res) (simp_all add: predict_batch_def Let_def)
  from batch_loop_stored [OF loop assms(2)] obtain new where
    p: "predictions (db w') = predictions (db w) @ new"
    and b: "list_all (\<lambda>r. p_batch_id r = Some ?bid) new"
    and g: "uuid_drawn w' = Suc (uuid_drawn w)"
    by auto
  have "list_all (\<lambda>r. case p_batch_id r of None \<Rightarrow> True
                          | Some b \<Rightarrow> list_ex (\<lambda>k. uuid4 k = b) [0..<uuid_drawn w']) new"
    using b by (auto simp: list_all_iff list_ex_iff g)
  from batch_ids_drawn_append [OF assms(1) p _ this] show ?thesis
    by (simp add: snd g)
qed

lemma predict_single_keeps_batch_ids_drawn:
  assumes "batch_ids_drawn uuid4 w"
  shows "batch_ids_drawn uuid4 (snd (predict_single pl data current_user w))"
proof -
  let ?f = "data_features data"
  obtain r w' where
    cp: "create_prediction (u_id current_user) \<lparr>ld_name = Str (data_name data), ld_features = ?f\<rparr>
           (predict pl ?f) (predict_proba pl ?f) ''single'' None w = (r, w')"
    by force
  then have snd: "snd (predict_single pl data current_user w) = w'"
    by (auto simp: predict_single_def Let_def split: sum.splits option.splits)
  from create_prediction_stored [OF cp] have g: "uuid_drawn w' = uuid_drawn w"
    and st: "predictions (db w') = predictions (db w)
          \<or> (\<exists>row. predictions (db w') = predictions (db w) @ [row] \<and> p_batch_id row = None)"
    by (auto simp: varchar_null_column_def)
  from st show ?thesis
  proof
    assume "predictions (db w') = predictions (db w)"
    then have "predictions (db w') = predictions (db w) @ []" by simp
    from batch_ids_drawn_append [OF assms this] show ?thesis
      by (simp add: snd g)
  next
    assume "\<exists>row. predictions (db w') = predictions (db w) @ [row] \<and> p_batch_id row = None"
    then obtain row where p: "predictions (db w') = predictions (db w) @ [row]"
      and n: "p_batch_id row = None" by blast
    from batch_ids_drawn_append [OF assms p] show ?thesis
      by (simp add: snd g n)
  qed
qed

lemma insert_user_keeps_unique:
  assumes "insert_user ckey now username email hashed_pw d = Inr (i, d')"
    and "distinct (map (\<lambda>u. ckey (u_username u)) (users d))"
  shows "distinct (map (\<lambda>u. ckey (u_username u)) (users d'))"
proof -
  from assms(1) obtain un em hp where
    d': "d' = d\<lparr>users := users d @
            [\<lparr>u_id = i, u_username = un, u_email = em, u_hashed_password = hp, u_created_at = now\<rparr>]\<rparr>"
    and no: "\<not> list_ex (\<lambda>u. ckey (u_username u) = ckey un) (users d)"
    by (auto simp: insert_user_def bind_Inr_iff Let_def split: if_splits)
  from no have "ckey un \<notin> (\<lambda>u. ckey (u_username u)) ` set (users d)"
    by (auto simp: list_ex_iff)
  with assms(2) show ?thesis
    by (simp add: d')
qed




lemma toy_batch_long_grade:
  "fst (post_predict_batch toy_pipeline toy_uuid4 frame_with_long_grade alice alice_world) = Inl DataError"
  "length (predictions (db (snd (post_predict_batch toy_pipeline toy_uuid4 frame_with_long_grade alice
      alice_world)))) = 1"
  by code_simp+

lemma toy_batch_repeated:
  "map p_batch_id (predictions (db (snd (post_predict_batch toy_pipeline repeating_uuid4 frame_without_names alice
      (snd (post_predict_batch toy_pipeline repeating_uuid4 frame_without_names alice alice_world))))))
     = [Some toy_uuid, Some toy_uuid, Some toy_uuid, Some toy_uuid]"
  by code_simp


lemma toy_history: "fst (get_history alice history_world) = Inr [toy_row 3 1 30, toy_row 1 1 10]"
  by code_simp

lemma alice_world_facts:
  "db_available alice_world" "users (db alice_world) = [alice]" "predictions (db alice_world) = []"
  "uuid_drawn alice_world = 0"
  by (simp_all add: db_available_def alice_world_def empty_world_def)

text \<open>
  The inference handlers answer: on a reachable database, for a caller stored in \<^verbatim>\<open>users\<close>
  and values that fit their columns, \<open>predict_single\<close> and \<open>predict_batch\<close> return a response,
  and the response of \<open>predict_batch\<close> can be rendered when every name is text.
\<close>

lemma prediction_values_shift:
  assumes "prediction_values pure strict i now uid ld pred prob ty bid = Inr row"
  shows "prediction_values pure strict i' now' uid' ld pred prob ty bid
           = Inr (row\<lparr>p_id := i', p_user_id := uid', p_created_at := now'\<rparr>)"
  using assms by (auto simp: prediction_values_def bind_Inr_iff)

lemma storable_values:
  assumes "storable pure strict ld pred prob ty bid"
  shows "\<exists>row. prediction_values pure strict i now uid ld pred prob ty bid = Inr row"
proof -
  from assms obtain row0 where "prediction_values pure strict 0 0 0 ld pred prob ty bid = Inr row0"
    by (cases "prediction_values pure strict 0 0 0 ld pred prob ty bid") (auto simp: storable_def)
  from prediction_values_shift [OF this] show ?thesis by blast
qed

lemma create_prediction_answers:
  assumes "db_available w"
    and "list_ex (\<lambda>u. u_id u = uid) (users (db w))"
    and "storable (use_pure w) (sql_strict (db w)) ld pred prob ty bid"
  shows "\<exists>row w'. create_prediction uid ld pred prob ty bid w = (Inr (Some row), w')
           \<and> db_available w'
           \<and> db w' = (db w)\<lparr>predictions := predictions (db w) @ [row]\<rparr>
           \<and> clock w' = clock w
           \<and> use_pure w' = use_pure w"
proof -
  let ?n = "next_id (map p_id (predictions (db w)))"
  from storable_values [OF assms(3)] obtain row where
    row: "prediction_values (use_pure w) (sql_strict (db w)) ?n (clock w) uid ld pred prob ty bid = Inr row"
    by blast
  have id: "p_id row = ?n"
    using prediction_values_Inr(1) [OF row] .
  have "\<forall>x\<in>set (predictions (db w)). p_id x \<noteq> ?n"
    using next_id_fresh [of _ "map p_id (predictions (db w))"] by fastforce
  then have f: "find (\<lambda>r. p_id r = ?n) (predictions (db w) @ [row]) = Some row"
    using id by (intro find_snoc_new) auto
  let ?d = "(db w)\<lparr>predictions := predictions (db w) @ [row]\<rparr>"
  have body: "bind (insert_prediction (use_pure w) (clock w) uid ld pred prob ty bid (db w))
        (\<lambda>(prediction_id, d'). Inr (find (\<lambda>r. p_id r = prediction_id) (predictions d'), d'))
      = Inr (Some row, ?d)"
    using row assms(2) f by (simp add: insert_prediction_def Let_def)
  let ?w' = "snd (create_prediction uid ld pred prob ty bid w)"
  have "create_prediction uid ld pred prob ty bid w = (Inr (Some row), ?w')"
    and "db ?w' = ?d" and "connection_pool ?w' = pool_after_init w" and "db_up ?w' = db_up w"
    and "clock ?w' = clock w" and "use_pure ?w' = use_pure w"
    unfolding create_prediction_def
    by (simp_all add: get_db_available [OF assms(1)] body)
  moreover from this assms(1) have "db_available ?w'"
    by (simp add: db_available_def pool_after_init_def pool_size_def)
  ultimately show ?thesis by blast
qed

lemma predict_single_answers:
  assumes "db_available w"
    and "list_ex (\<lambda>u. u_id u = u_id current_user) (users (db w))"
    and "storable (use_pure w) (sql_strict (db w))
           \<lparr>ld_name = Str (data_name data), ld_features = data_features data\<rparr>
           (predict pl (data_features data)) (predict_proba pl (data_features data)) ''single'' None"
  shows "\<exists>resp. fst (predict_single pl data current_user w) = Inr resp"
proof -
  from create_prediction_answers [OF assms] obtain row w' where
    "create_prediction (u_id current_user) \<lparr>ld_name = Str (data_name data), ld_features = data_features data\<rparr>
           (predict pl (data_features data)) (predict_proba pl (data_features data)) ''single'' None w
       = (Inr (Some row), w')"
    by blast
  then show ?thesis
    by (simp add: predict_single_def Let_def)
qed

lemma batch_loop_answers:
  assumes "db_available w"
    and "list_ex (\<lambda>u. u_id u = uid) (users (db w))"
    and "\<forall>(idx, row)\<in>set items. idx < length names \<and> idx < length preds \<and> idx < length probs
           \<and> storable (use_pure w) (sql_strict (db w)) \<lparr>ld_name = names ! idx, ld_features = row\<rparr>
                (preds ! idx) (probs ! idx) ''batch'' (Some bid)"
  shows "\<exists>out w'. batch_loop uid names preds probs bid items acc w = (Inr out, w')"
  using assms
proof (induction items arbitrary: acc w)
  case Nil
  then show ?case by simp
next
  case (Cons it items)
  obtain idx row where it: "it = (idx, row)" by force
  from Cons.prems(3) have here: "idx < length names" "idx < length preds" "idx < length probs"
    "storable (use_pure w) (sql_strict (db w)) \<lparr>ld_name = names ! idx, ld_features = row\<rparr>
                (preds ! idx) (probs ! idx) ''batch'' (Some bid)"
    by (simp_all add: it)
  from create_prediction_answers [OF Cons.prems(1,2) here(4)] obtain r w1 where
    cp: "create_prediction uid \<lparr>ld_name = names ! idx, ld_features = row\<rparr> (preds ! idx) (probs ! idx)
           ''batch'' (Some bid) w = (Inr (Some r), w1)"
    and a1: "db_available w1"
    and d1: "db w1 = (db w)\<lparr>predictions := predictions (db w) @ [r]\<rparr>"
    and p1: "use_pure w1 = use_pure w"
    by blast
  have u1: "list_ex (\<lambda>u. u_id u = uid) (users (db w1))"
    using Cons.prems(2) by (simp add: d1)
  have s1: "\<forall>(idx, row)\<in>set items. idx < length names \<and> idx < length preds \<and> idx < length probs
           \<and> storable (use_pure w1) (sql_strict (db w1)) \<lparr>ld_name = names ! idx, ld_features = row\<rparr>
                (preds ! idx) (probs ! idx) ''batch'' (Some bid)"
    using Cons.prems(3) by (simp add: d1 p1)
  from Cons.IH [OF a1 u1 s1] obtain out w' where
    "batch_loop uid names preds probs bid items
       (acc @ [\<lparr>entry_name = names ! idx, entry_prediction = preds ! idx, entry_probability = probs ! idx\<rparr>]) w1
     = (Inr out, w')"
    by blast
  then show ?case
    using cp here(1-3) by (simp add: it py_index_def)
qed

lemma predict_batch_answers:
  fixes df :: dataframe
  defines "names \<equiv> (case name_column df of Some cells \<Rightarrow> cells
                     | None \<Rightarrow> replicate (length (feature_rows df)) (Str ''Unknown''))"
  assumes "db_available w"
    and "list_ex (\<lambda>u. u_id u = u_id current_user) (users (db w))"
    and "length names = length (feature_rows df)"
    and "\<forall>j<length (feature_rows df).
           storable (use_pure w) (sql_strict (db w))
             \<lparr>ld_name = names ! j, ld_features = feature_rows df ! j\<rparr>
             (predict pl (feature_rows df ! j)) (predict_proba pl (feature_rows df ! j))
             ''batch'' (Some (uuid4 (uuid_drawn w)))"
  shows "\<exists>resp. fst (predict_batch pl uuid4 df current_user w) = Inr resp"
proof -
  let ?rows = "feature_rows df"
  let ?w0 = "w\<lparr>uuid_drawn := Suc (uuid_drawn w)\<rparr>"
  have a0: "db_available ?w0" and u0: "list_ex (\<lambda>u. u_id u = u_id current_user) (users (db ?w0))"
    using assms(2,3) by (simp_all add: db_available_def)
  have "\<forall>(idx, row)\<in>set (zip [0..<length ?rows] ?rows).
           idx < length names \<and> idx < length (map (predict pl) ?rows)
           \<and> idx < length (map (predict_proba pl) ?rows)
           \<and> storable (use_pure ?w0) (sql_strict (db ?w0)) \<lparr>ld_name = names ! idx, ld_features = row\<rparr>
                (map (predict pl) ?rows ! idx) (map (predict_proba pl) ?rows ! idx) ''batch''
                (Some (uuid4 (uuid_drawn w)))"
    using assms(4,5) by (auto simp: set_zip)
  from batch_loop_answers [OF a0 u0 this, of "[]"] obtain out w' where
    "batch_loop (u_id current_user) names (map (predict pl) ?rows) (map (predict_proba pl) ?rows)
       (uuid4 (uuid_drawn w)) (zip [0..<length ?rows] ?rows) [] ?w0 = (Inr out, w')"
    by blast
  then show ?thesis
    by (simp add: predict_batch_def Let_def names_def)
qed

lemma post_predict_batch_answers:
  assumes "db_available w"
    and "list_ex (\<lambda>u. u_id u = u_id current_user) (users (db w))"
    and "name_column df = None"
    and "\<forall>row\<in>set (feature_rows df).
           storable (use_pure w) (sql_strict (db w)) \<lparr>ld_name = Str ''Unknown'', ld_features = row\<rparr>
             (predict pl row) (predict_proba pl row) ''batch'' (Some (uuid4 (uuid_drawn w)))"
  shows "\<exists>resp. fst (post_predict_batch pl uuid4 df current_user w) = Inr resp"
proof -
  have "\<exists>resp. fst (predict_batch pl uuid4 df current_user w) = Inr resp"
    using assms by (intro predict_batch_answers) simp_all
  then obtain resp w' where pb: "predict_batch pl uuid4 df current_user w = (Inr resp, w')"
    by (metis prod.collapse)
  from predict_batch_Inr [OF pb] assms(3) have "\<not> list_ex (\<lambda>e. entry_name e = NaN) (br_predictions resp)"
    by (auto simp: list_ex_iff)
  with pb show ?thesis
    by (simp add: post_predict_batch_def)
qed

lemma post_predict_batch_Inr:
  assumes "post_predict_batch pl uuid4 df current_user w = (Inr resp, w')"
  shows "predict_batch pl uuid4 df current_user w = (Inr resp, w')"
  using assms
  by (auto simp: post_predict_batch_def split: prod.splits sum.splits if_splits)

lemma toy_second_batch:
  "fst (post_predict_batch toy_pipeline toy_uuid4 frame_without_names alice after_first_batch)
     = Inr \<lparr>br_batch_id = other_uuid, br_count = 2,
            br_predictions =
              [\<lparr>entry_name = Str ''Unknown'', entry_prediction = 1, entry_probability = 63 / 64\<rparr>,
               \<lparr>entry_name = Str ''Unknown'', entry_prediction = 1, entry_probability = 63 / 64\<rparr>]\<rparr>"
  "length (toy_uuid4 (uuid_drawn after_first_batch)) = 36"
  "list_all (\<lambda>k. toy_uuid4 k \<noteq> toy_uuid4 (uuid_drawn after_first_batch)) [0..<uuid_drawn after_first_batch]"
  "batch_ids_drawn toy_uuid4 after_first_batch"
  "map p_batch_id (predictions (db after_first_batch)) = [Some toy_uuid, Some toy_uuid]"
  by code_simp+


section \<open>Scoped acquisition\<close>

text \<open>
  C3. For every scoped acquisition that obtains a handle: when the body of the scope
  completes normally, \<open>get_db\<close> commits the body's changes and then releases the handle;
  when the body raises, \<open>get_db\<close> rolls back (the committed content is unchanged), then
  releases the handle, and the exception propagates. After the scope the pool has all its
  handles again.
\<close>

theorem get_db_commit_or_rollback:
  assumes "db_available w"
  shows "(body (db w) = Inr (v, d) \<longrightarrow>
            get_db body w =
              (Inr v, w\<lparr>connection_pool := pool_after_init w, db := d,
                        events := events w @ init_events w @
                          [GetConnection, OpenCursor, Commit, CursorClose, ConnClose]\<rparr>))
       \<and> (body (db w) = Inl e \<longrightarrow>
            get_db body w =
              (Inl e, w\<lparr>connection_pool := pool_after_init w,
                        events := events w @ init_events w @
                          [GetConnection, OpenCursor, Rollback, CursorClose, ConnClose]\<rparr>))
       \<and> connection_pool (snd (get_db body w)) = pool_after_init w"
proof -
  have "connection_pool (snd (get_db body w)) = pool_after_init w"
    using assms by (simp add: get_db_pool pool_after_init_def db_available_def)
  moreover have "body (db w) = Inr (v, d) \<longrightarrow>
            get_db body w =
              (Inr v, w\<lparr>connection_pool := pool_after_init w, db := d,
                        events := events w @ init_events w @
                          [GetConnection, OpenCursor, Commit, CursorClose, ConnClose]\<rparr>)"
    by (simp add: get_db_available [OF assms])
  moreover have "body (db w) = Inl e \<longrightarrow>
            get_db body w =
              (Inl e, w\<lparr>connection_pool := pool_after_init w,
                        events := events w @ init_events w @
                          [GetConnection, OpenCursor, Rollback, CursorClose, ConnClose]\<rparr>)"
    by (simp add: get_db_available [OF assms])
  ultimately show ?thesis by blast
qed

theorem get_db_commit_or_rollback_witness:
  "db_available alice_world
   \<and> fst (get_db (\<lambda>d. Inr (True, d\<lparr>users := []\<rparr>)) alice_world) = Inr True
   \<and> users (db (snd (get_db (\<lambda>d. Inr (True, d\<lparr>users := []\<rparr>)) alice_world))) = []
   \<and> events (snd (get_db (\<lambda>d. Inr (True, d\<lparr>users := []\<rparr>)) alice_world)) =
        [PoolCreated, GetConnection, OpenCursor, Commit, CursorClose, ConnClose]
   \<and> fst (get_db (\<lambda>d. (Inl DataError :: exn + bool \<times> database)) alice_world) = Inl DataError
   \<and> users (db (snd (get_db (\<lambda>d. (Inl DataError :: exn + bool \<times> database)) alice_world))) = [alice]
   \<and> events (snd (get_db (\<lambda>d. (Inl DataError :: exn + bool \<times> database)) alice_world)) =
        [PoolCreated, GetConnection, OpenCursor, Rollback, CursorClose, ConnClose]
   \<and> connection_pool (snd (get_db (\<lambda>d. (Inl DataError :: exn + bool \<times> database)) alice_world)) = Some 5"
proof -
  have h: "db_available alice_world"
    by (simp add: db_available_def alice_world_def empty_world_def)
  have w: "events alice_world = []" "init_events alice_world = [PoolCreated]"
    "pool_after_init alice_world = Some 5" "users (db alice_world) = [alice]"
    by (simp_all add: alice_world_def empty_world_def init_events_def pool_after_init_def pool_size_def)
  show ?thesis
    using h w
      get_db_commit_or_rollback [OF h, of "\<lambda>d. Inr (True, d\<lparr>users := []\<rparr>)" True
        "(db alice_world)\<lparr>users := []\<rparr>" DataError]
      get_db_commit_or_rollback [OF h, of "\<lambda>d. (Inl DataError :: exn + bool \<times> database)" True
        "db alice_world" DataError]
    by simp
qed

section \<open>Failed pool initialisation\<close>

text \<open>
  C7. While the server cannot be reached and no pool exists, every acquisition attempts the
  initialisation once, which fails and is only printed, and then raises \<open>AttributeError\<close>
  from the lookup of \<^verbatim>\<open>get_connection\<close> on \<open>None\<close>: the caller receives no connection error.
  The pool stays \<open>None\<close>, so the next acquisition attempts the initialisation again.
\<close>

theorem get_db_unreachable:
  assumes "connection_pool w = None" and "\<not> db_up w"
  shows "get_db body w = (Inl AttributeError, w\<lparr>events := events w @ [PoolInitFailed]\<rparr>)"
  using assms
  by (simp add: get_db_def init_connection_pool_def get_connection_def log_def)

theorem get_db_unreachable_witness:
  "connection_pool (empty_world\<lparr>db_up := False\<rparr>) = None
   \<and> \<not> db_up (empty_world\<lparr>db_up := False\<rparr>)
   \<and> fst (get_db (\<lambda>d. Inr (users d, d)) (empty_world\<lparr>db_up := False\<rparr>)) = Inl AttributeError
   \<and> connection_pool (snd (get_db (\<lambda>d. Inr (users d, d)) (empty_world\<lparr>db_up := False\<rparr>))) = None"
proof -
  have h: "connection_pool (empty_world\<lparr>db_up := False\<rparr>) = None" "\<not> db_up (empty_world\<lparr>db_up := False\<rparr>)"
    by (simp_all add: empty_world_def)
  show ?thesis
    using h get_db_unreachable [OF h, of "\<lambda>d. Inr (users d, d)"] by simp
qed

section \<open>Single inference\<close>

text \<open>
  C1, as the code has it. When \<open>predict_single\<close> answers, for a scorer whose decision is 0 or 1
  and whose probability lies in \<open>[0, 1]\<close>: the returned prediction is the scorer's decision, and
  the returned probability is the scorer's probability rounded to four decimals, which is
  the value of the \<^verbatim>\<open>DECIMAL(5, 4)\<close> column of the row just stored and read back.
\<close>

theorem predict_single_round_trip:
  assumes "predict_single pl data current_user w = (Inr resp, w')"
    and "predict pl (data_features data) \<in> {0, 1}"
    and "0 \<le> predict_proba pl (data_features data)"
    and "predict_proba pl (data_features data) \<le> 1"
  shows "resp_prediction resp = predict pl (data_features data)
       \<and> resp_probability resp = round_half_away 4 (predict_proba pl (data_features data))
       \<and> (\<exists>row. predictions (db w') = predictions (db w) @ [row]
             \<and> p_prediction row = resp_prediction resp
             \<and> p_probability row = resp_probability resp
             \<and> p_id row = resp_id resp
             \<and> p_user_id row = u_id current_user)"
proof -
  let ?f = "data_features data"
  let ?ld = "\<lparr>ld_name = Str (data_name data), ld_features = ?f\<rparr>"
  from assms(1) obtain r where
    cp: "create_prediction (u_id current_user) ?ld (predict pl ?f) (predict_proba pl ?f) ''single'' None w
           = (Inr (Some r), w')"
    and resp: "resp = \<lparr>resp_id = p_id r, resp_prediction = p_prediction r,
                 resp_probability = p_probability r, resp_created_at = p_created_at r\<rparr>"
    by (auto simp: predict_single_def Let_def split: prod.splits sum.splits option.splits)
  from create_prediction_Inr [OF cp] obtain row where
    row: "prediction_values (use_pure w) (sql_strict (db w)) (next_id (map p_id (predictions (db w))))
            (clock w) (u_id current_user) ?ld (predict pl ?f) (predict_proba pl ?f) ''single'' None
          = Inr row"
    and r: "Some r = Some row"
    and d: "db w' = (db w)\<lparr>predictions := predictions (db w) @ [row]\<rparr>"
    by blast
  have "tinyint_column (sql_strict (db w)) (predict pl ?f) = Inr (p_prediction row)"
    using prediction_values_Inr(6) [OF row] .
  then have a: "p_prediction row = predict pl ?f"
    by (simp add: tinyint_bit [OF assms(2)])
  have "decimal_column (sql_strict (db w)) 5 4 (predict_proba pl ?f) = Inr (p_probability row)"
    using prediction_values_Inr(7) [OF row] .
  then have b: "p_probability row = round_half_away 4 (predict_proba pl ?f)"
    by (simp add: decimal_probability [OF assms(3,4)])
  have c: "p_user_id row = u_id current_user"
    using prediction_values_Inr(2) [OF row] .
  from r have "r = row" by simp
  with a b c d resp show ?thesis by simp
qed

theorem predict_single_round_trip_witness:
  "predict_single toy_pipeline \<lparr>data_name = ''Alice'', data_features = alice_features\<rparr> alice alice_world
     = (Inr \<lparr>resp_id = 1, resp_prediction = 1, resp_probability = 2461 / 2500, resp_created_at = 1000\<rparr>,
        snd (predict_single toy_pipeline \<lparr>data_name = ''Alice'', data_features = alice_features\<rparr> alice alice_world))
   \<and> predict toy_pipeline alice_features \<in> {0, 1}
   \<and> 0 \<le> predict_proba toy_pipeline alice_features
   \<and> predict_proba toy_pipeline alice_features \<le> 1
   \<and> round_half_away 4 (predict_proba toy_pipeline alice_features) = 2461 / 2500"
proof -
  let ?data = "\<lparr>data_name = ''Alice'', data_features = alice_features\<rparr>"
  let ?resp = "\<lparr>resp_id = 1, resp_prediction = 1, resp_probability = 2461 / 2500, resp_created_at = 1000\<rparr>"
  have h1: "predict_single toy_pipeline ?data alice alice_world
              = (Inr ?resp, snd (predict_single toy_pipeline ?data alice alice_world))"
    using toy_single by (simp add: prod_eq_iff)
  have h2: "predict toy_pipeline (data_features ?data) \<in> {0, 1}"
    and h3: "0 \<le> predict_proba toy_pipeline (data_features ?data)"
    and h4: "predict_proba toy_pipeline (data_features ?data) \<le> 1"
    by (simp_all add: toy_pipeline_def)
  show ?thesis
    using h1 h2 h3 h4 predict_single_round_trip [OF h1 h2 h3 h4] by simp
qed

text \<open>
  C1 as stated fails: a scorer probability of \<open>63/64 = 0.984375\<close> comes back as \<open>0.9844\<close>.
\<close>

theorem predict_single_probability_counterexample:
  "fst (predict_single toy_pipeline \<lparr>data_name = ''Alice'', data_features = alice_features\<rparr> alice alice_world)
     = Inr \<lparr>resp_id = 1, resp_prediction = 1, resp_probability = 2461 / 2500, resp_created_at = 1000\<rparr>
   \<and> predict_proba toy_pipeline alice_features = 63 / 64
   \<and> (2461 / 2500 :: rat) \<noteq> 63 / 64"
  using toy_single by (simp add: toy_pipeline_def)

section \<open>Batch inference\<close>

text \<open>
  C2, as the code has it. When the client of \<open>predict_batch\<close> receives a response for a request
  with \<open>N\<close> parsed rows, the table of predictions has grown by exactly \<open>N\<close> records, appended
  in input order: the \<open>j\<close>-th new record has the \<open>j\<close>-th following id and holds the features,
  decision and probability of the \<open>j\<close>-th input row as their columns store them. Every new
  record carries the identifier that \<^verbatim>\<open>uuid.uuid4()\<close> returned for this request as its
  \<open>batch_id\<close>, the type \<open>batch\<close> and the caller's id, and the response reports that identifier
  and the count \<open>N\<close>. Provided \<^verbatim>\<open>uuid.uuid4()\<close> has not returned this identifier in an earlier
  call, the records with this \<open>batch_id\<close> are exactly the new ones; and every stored \<open>batch_id\<close>
  is again an identifier drawn so far, so the same holds for the submissions that follow.
\<close>

theorem post_predict_batch_records:
  assumes "post_predict_batch pl uuid4 df current_user w = (Inr resp, w')"
    and "length (uuid4 (uuid_drawn w)) = 36"
    and "list_all (\<lambda>k. uuid4 k \<noteq> uuid4 (uuid_drawn w)) [0..<uuid_drawn w]"
    and "batch_ids_drawn uuid4 w"
  shows "\<exists>new. predictions (db w') = predictions (db w) @ new
           \<and> length new = length (feature_rows df)
           \<and> br_count resp = length (feature_rows df)
           \<and> length (br_predictions resp) = length (feature_rows df)
           \<and> br_batch_id resp = uuid4 (uuid_drawn w)
           \<and> (\<forall>j<length (feature_rows df).
                  p_batch_id (new ! j) = Some (br_batch_id resp)
                \<and> p_prediction_type (new ! j) = ''batch''
                \<and> p_user_id (new ! j) = u_id current_user
                \<and> p_id (new ! j) = next_id (map p_id (predictions (db w))) + j
                \<and> store_features (sql_strict (db w)) (feature_rows df ! j) = Inr (p_features (new ! j))
                \<and> tinyint_column (sql_strict (db w)) (predict pl (feature_rows df ! j))
                    = Inr (p_prediction (new ! j))
                \<and> decimal_column (sql_strict (db w)) 5 4 (predict_proba pl (feature_rows df ! j))
                    = Inr (p_probability (new ! j)))
           \<and> filter (\<lambda>r. p_batch_id r = Some (br_batch_id resp)) (predictions (db w')) = new
           \<and> uuid_drawn w' = Suc (uuid_drawn w)
           \<and> batch_ids_drawn uuid4 w'"
proof -
  let ?rows = "feature_rows df"
  let ?strict = "sql_strict (db w)"
  let ?bid = "uuid4 (uuid_drawn w)"
  have pb: "predict_batch pl uuid4 df current_user w = (Inr resp, w')"
    using assms(1) by (rule post_predict_batch_Inr)
  from predict_batch_Inr [OF pb] obtain new names where
    p: "predictions (db w') = predictions (db w) @ new"
    and g: "uuid_drawn w' = Suc (uuid_drawn w)"
    and l: "length new = length ?rows"
    and resp: "resp = \<lparr>br_batch_id = ?bid, br_count = length ?rows,
                      br_predictions = map (\<lambda>j. \<lparr>entry_name = names ! j,
                          entry_prediction = predict pl (?rows ! j),
                          entry_probability = predict_proba pl (?rows ! j)\<rparr>) [0..<length ?rows]\<rparr>"
    and v: "\<forall>j<length ?rows.
                 prediction_values (use_pure w) ?strict (next_id (map p_id (predictions (db w))) + j)
                   (clock w) (u_id current_user)
                   \<lparr>ld_name = names ! j, ld_features = ?rows ! j\<rparr>
                   (predict pl (?rows ! j)) (predict_proba pl (?rows ! j)) ''batch'' (Some ?bid)
                 = Inr (new ! j)"
    by blast
  have rows: "p_batch_id (new ! j) = Some ?bid
                \<and> p_prediction_type (new ! j) = ''batch''
                \<and> p_user_id (new ! j) = u_id current_user
                \<and> p_id (new ! j) = next_id (map p_id (predictions (db w))) + j
                \<and> store_features ?strict (?rows ! j) = Inr (p_features (new ! j))
                \<and> tinyint_column ?strict (predict pl (?rows ! j)) = Inr (p_prediction (new ! j))
                \<and> decimal_column ?strict 5 4 (predict_proba pl (?rows ! j)) = Inr (p_probability (new ! j))"
    if j: "j < length ?rows" for j
  proof -
    from v j have pv: "prediction_values (use_pure w) ?strict (next_id (map p_id (predictions (db w))) + j)
                   (clock w) (u_id current_user)
                   \<lparr>ld_name = names ! j, ld_features = ?rows ! j\<rparr>
                   (predict pl (?rows ! j)) (predict_proba pl (?rows ! j)) ''batch'' (Some ?bid)
                 = Inr (new ! j)"
      by blast
    have "varchar_null_column ?strict 255 (Some ?bid) = Inr (p_batch_id (new ! j))"
      using prediction_values_Inr(9) [OF pv] .
    then have b: "p_batch_id (new ! j) = Some ?bid"
      using assms(2) by (simp add: varchar_null_column_def varchar_column_def)
    have "varchar_column ?strict 20 ''batch'' = Inr (p_prediction_type (new ! j))"
      using prediction_values_Inr(8) [OF pv] .
    then have t: "p_prediction_type (new ! j) = ''batch''"
      by (simp add: varchar_column_def)
    show ?thesis
      using b t prediction_values_Inr(1,2,5,6,7) [OF pv] by simp
  qed
  have mine: "\<forall>r\<in>set new. p_batch_id r = Some ?bid"
    using rows l by (auto simp: all_set_conv_all_nth)
  have others: "p_batch_id r \<noteq> Some ?bid" if r: "r \<in> set (predictions (db w))" for r
  proof
    assume "p_batch_id r = Some ?bid"
    with assms(4) r have "list_ex (\<lambda>k. uuid4 k = ?bid) [0..<uuid_drawn w]"
      by (auto simp: batch_ids_drawn_def list_all_iff)
    with assms(3) show False
      by (auto simp: list_ex_iff list_all_iff)
  qed
  have fresh: "filter (\<lambda>r. p_batch_id r = Some ?bid) (predictions (db w')) = new"
    using mine others by (simp add: p)
  have kept: "batch_ids_drawn uuid4 w'"
    using predict_batch_keeps_batch_ids_drawn [OF assms(4), of pl df current_user] assms(2)
    by (simp add: pb)
  from p l resp rows fresh g kept show ?thesis
    by (intro exI [of _ new]) simp
qed

theorem post_predict_batch_records_witness:
  "post_predict_batch toy_pipeline toy_uuid4 frame_without_names alice after_first_batch
     = (Inr \<lparr>br_batch_id = other_uuid, br_count = 2,
             br_predictions =
               [\<lparr>entry_name = Str ''Unknown'', entry_prediction = 1, entry_probability = 63 / 64\<rparr>,
                \<lparr>entry_name = Str ''Unknown'', entry_prediction = 1, entry_probability = 63 / 64\<rparr>]\<rparr>,
        snd (post_predict_batch toy_pipeline toy_uuid4 frame_without_names alice after_first_batch))
   \<and> length (toy_uuid4 (uuid_drawn after_first_batch)) = 36
   \<and> list_all (\<lambda>k. toy_uuid4 k \<noteq> toy_uuid4 (uuid_drawn after_first_batch)) [0..<uuid_drawn after_first_batch]
   \<and> batch_ids_drawn toy_uuid4 after_first_batch
   \<and> map p_batch_id (predictions (db after_first_batch)) = [Some toy_uuid, Some toy_uuid]
   \<and> length (feature_rows frame_without_names) = 2
   \<and> length (predictions (db (snd (post_predict_batch toy_pipeline toy_uuid4 frame_without_names alice
        after_first_batch)))) = 4
   \<and> filter (\<lambda>r. p_batch_id r = Some other_uuid)
        (predictions (db (snd (post_predict_batch toy_pipeline toy_uuid4 frame_without_names alice
           after_first_batch))))
       = drop 2 (predictions (db (snd (post_predict_batch toy_pipeline toy_uuid4 frame_without_names alice
           after_first_batch))))"
proof -
  let ?w' = "snd (post_predict_batch toy_pipeline toy_uuid4 frame_without_names alice after_first_batch)"
  let ?resp = "\<lparr>br_batch_id = other_uuid, br_count = 2,
             br_predictions =
               [\<lparr>entry_name = Str ''Unknown'', entry_prediction = 1, entry_probability = 63 / 64\<rparr>,
                \<lparr>entry_name = Str ''Unknown'', entry_prediction = 1, entry_probability = 63 / 64\<rparr>]\<rparr>"
  have h1: "post_predict_batch toy_pipeline toy_uuid4 frame_without_names alice after_first_batch
              = (Inr ?resp, ?w')"
    using toy_second_batch(1) by (simp add: prod_eq_iff)
  have h2: "length (toy_uuid4 (uuid_drawn after_first_batch)) = 36"
    and h3: "list_all (\<lambda>k. toy_uuid4 k \<noteq> toy_uuid4 (uuid_drawn after_first_batch))
               [0..<uuid_drawn after_first_batch]"
    and h4: "batch_ids_drawn toy_uuid4 after_first_batch"
    using toy_second_batch(2,3,4) .
  have n: "length (feature_rows frame_without_names) = 2"
    by (simp add: frame_without_names_def)
  from post_predict_batch_records [OF h1 h2 h3 h4] obtain new where
    p: "predictions (db ?w') = predictions (db after_first_batch) @ new"
    and l: "length new = length (feature_rows frame_without_names)"
    and f: "filter (\<lambda>r. p_batch_id r = Some (br_batch_id ?resp)) (predictions (db ?w')) = new"
    by blast
  have two: "length (predictions (db after_first_batch)) = 2"
    using toy_second_batch(5) by (metis length_map length_Cons list.size(3) numeral_2_eq_2)
  have "length (predictions (db ?w')) = 4"
    using p l n two by simp
  moreover have "drop 2 (predictions (db ?w')) = new"
    using p two by simp
  ultimately show ?thesis
    using h1 h2 h3 h4 n f toy_second_batch(5) by simp
qed

text \<open>
  C2 as stated fails. A request of two rows whose second row does not fit its columns ends
  with an exception after the first row was committed: one record, not two, and no response.
  And when \<^verbatim>\<open>uuid.uuid4()\<close> returns the same identifier for two requests, which the handler
  does not check, the records of both submissions share it.
\<close>

theorem post_predict_batch_counterexample:
  "length (feature_rows frame_with_long_grade) = 2
   \<and> fst (post_predict_batch toy_pipeline toy_uuid4 frame_with_long_grade alice alice_world) = Inl DataError
   \<and> length (predictions (db (snd (post_predict_batch toy_pipeline toy_uuid4 frame_with_long_grade alice
        alice_world)))) = 1
   \<and> map p_batch_id (predictions (db (snd (post_predict_batch toy_pipeline repeating_uuid4 frame_without_names
        alice (snd (post_predict_batch toy_pipeline repeating_uuid4 frame_without_names alice alice_world))))))
       = [Some toy_uuid, Some toy_uuid, Some toy_uuid, Some toy_uuid]"
  using toy_batch_long_grade toy_batch_repeated
  by (simp add: frame_with_long_grade_def)

section \<open>Names in batch inference\<close>




section \<open>Tokens\<close>

text \<open>
  C5. A token issued at time \<open>t0\<close> carries the expiry \<open>T = t0 + 86400\<close>. Validation at any time
  before \<open>T\<close> succeeds and returns the payload with the encoded subject; validation at \<open>T\<close> or
  later fails with HTTP 401 \<open>Token expired\<close>; a token whose signature does not verify fails
  with HTTP 401 \<open>Invalid token\<close>.
\<close>

theorem decode_token_expiry:
  "(now < t0 + 86400 \<longrightarrow>
      decode_token hs256 now (create_access_token hs256 t0 data)
        = Inr (data\<lparr>claim_exp := Some (t0 + 86400)\<rparr>))
   \<and> (t0 + 86400 \<le> now \<longrightarrow>
      decode_token hs256 now (create_access_token hs256 t0 data)
        = Inl (HTTPException 401 ''Token expired''))
   \<and> (sig \<noteq> hs256 SECRET_KEY p \<longrightarrow>
      decode_token hs256 now (Signed p sig) = Inl (HTTPException 401 ''Invalid token''))"
  by (simp add: decode_token_def jwt_decode_def jwt_encode_def create_access_token_def
      ACCESS_TOKEN_EXPIRE_MINUTES_def Let_def)

theorem decode_token_expiry_witness:
  "(86449 :: int) < 50 + 86400
   \<and> decode_token toy_hs256 86449 (create_access_token toy_hs256 50 \<lparr>claim_sub = Some ''alice'', claim_exp = None\<rparr>)
        = Inr \<lparr>claim_sub = Some ''alice'', claim_exp = Some 86450\<rparr>
   \<and> (50 :: int) + 86400 \<le> 86450
   \<and> decode_token toy_hs256 86450 (create_access_token toy_hs256 50 \<lparr>claim_sub = Some ''alice'', claim_exp = None\<rparr>)
        = Inl (HTTPException 401 ''Token expired'')
   \<and> ''forged'' \<noteq> toy_hs256 SECRET_KEY \<lparr>claim_sub = Some ''alice'', claim_exp = Some 86450\<rparr>
   \<and> decode_token toy_hs256 86449 (Signed \<lparr>claim_sub = Some ''alice'', claim_exp = Some 86450\<rparr> ''forged'')
        = Inl (HTTPException 401 ''Invalid token'')"
proof -
  let ?p = "\<lparr>claim_sub = Some ''alice'', claim_exp = Some 86450\<rparr>"
  let ?data = "\<lparr>claim_sub = Some ''alice'', claim_exp = None\<rparr>"
  have f: "''forged'' \<noteq> toy_hs256 SECRET_KEY ?p"
    by (simp add: toy_hs256_def SECRET_KEY_def)
  show ?thesis
    using f decode_token_expiry [of 86449 50 toy_hs256 ?data "''forged''" ?p]
      decode_token_expiry [of 86450 50 toy_hs256 ?data "''forged''" ?p]
    by simp
qed

section \<open>Passwords\<close>

text \<open>
  C6, as the code has it. \<open>verify_password\<close> has no handler around \<^verbatim>\<open>bcrypt.checkpw\<close>: for every
  plaintext password and every string without the \<^verbatim>\<open>$version$cost$salt\<close> shape of a bcrypt
  hash passed as the hashed argument, it does not return \<open>False\<close> but raises \<open>ValueError\<close>.
\<close>

theorem verify_password_malformed:
  assumes "bcrypt_fields hashed_password = None"
  shows "\<exists>msg. verify_password crypt plain_password hashed_password = Inl (ValueError msg)"
  using assms by (simp add: verify_password_def checkpw_def hashpw_def)

theorem verify_password_malformed_witness:
  "bcrypt_fields ''not-a-hash'' = None
   \<and> (\<exists>msg. verify_password toy_crypt ''pw123'' ''not-a-hash'' = Inl (ValueError msg))
   \<and> (\<exists>msg. verify_password toy_crypt long_password ''not-a-hash'' = Inl (ValueError msg))"
  using not_a_hash verify_password_malformed [OF not_a_hash, of toy_crypt "''pw123''"]
    verify_password_malformed [OF not_a_hash, of toy_crypt long_password]
  by simp

text \<open>C6 as stated fails: on the hash argument \<open>not-a-hash\<close> the result is not \<open>False\<close>.\<close>

theorem verify_password_malformed_counterexample:
  "verify_password toy_crypt ''pw123'' ''not-a-hash'' \<noteq> Inr False"
  by (simp add: verify_password_def checkpw_def hashpw_def not_a_hash)

section \<open>Login\<close>




section \<open>Registration\<close>

text \<open>
  C4. On a reachable database whose \<^verbatim>\<open>users\<close> table satisfies its unique index on
  \<^verbatim>\<open>username\<close>: registering a username that is already stored fails with HTTP 400
  \<open>Username already exists\<close>, the tables are unchanged, and the table still holds exactly one
  row with that username. Registering a new username with an email that is already stored
  fails with HTTP 400 \<open>Email already exists\<close>, and the tables are unchanged.
\<close>

theorem register_duplicate_rejected:
  assumes "db_available w"
    and "distinct (map (\<lambda>u. ckey (u_username u)) (users (db w)))"
  shows "(list_ex (\<lambda>u. u_username u = reg_username user_data) (users (db w)) \<longrightarrow>
            fst (register ckey crypt salt hs256 now user_data w)
              = Inl (HTTPException 400 ''Username already exists'')
          \<and> db (snd (register ckey crypt salt hs256 now user_data w)) = db w
          \<and> length (filter (\<lambda>u. u_username u = reg_username user_data)
                (users (db (snd (register ckey crypt salt hs256 now user_data w))))) = 1)
       \<and> (\<not> list_ex (\<lambda>u. ckey (u_username u) = ckey (reg_username user_data)) (users (db w))
          \<and> list_ex (\<lambda>u. u_email u = reg_email user_data) (users (db w)) \<longrightarrow>
            fst (register ckey crypt salt hs256 now user_data w)
              = Inl (HTTPException 400 ''Email already exists'')
          \<and> db (snd (register ckey crypt salt hs256 now user_data w)) = db w)"
proof -
  let ?byname = "\<lambda>d. find (\<lambda>u. ckey (u_username u) = ckey (reg_username user_data)) (users d)"
  let ?bymail = "\<lambda>d. find (\<lambda>u. ckey (u_email u) = ckey (reg_email user_data)) (users d)"
  obtain r1 w1 where g1: "get_user_by_username ckey (reg_username user_data) w = (r1, w1)"
    by force
  have r1: "r1 = Inr (?byname (db w))" and w1: "db w1 = db w" "db_available w1"
    using get_db_read [OF assms(1), of ?byname] g1
    by (simp_all add: get_user_by_username_def)
  obtain r2 w2 where g2: "get_user_by_email ckey (reg_email user_data) w1 = (r2, w2)"
    by force
  have r2: "r2 = Inr (?bymail (db w))" and w2: "db w2 = db w"
    using get_db_read [OF w1(2), of ?bymail] g2 w1(1)
    by (simp_all add: get_user_by_email_def)
  have name: "fst (register ckey crypt salt hs256 now user_data w)
              = Inl (HTTPException 400 ''Username already exists'')
          \<and> db (snd (register ckey crypt salt hs256 now user_data w)) = db w
          \<and> length (filter (\<lambda>u. u_username u = reg_username user_data)
                (users (db (snd (register ckey crypt salt hs256 now user_data w))))) = 1"
    if ex: "list_ex (\<lambda>u. u_username u = reg_username user_data) (users (db w))"
  proof -
    from find_list_ex [OF list_ex_key [OF ex, of ckey]]
    obtain u where "?byname (db w) = Some u" by blast
    then have reg: "register ckey crypt salt hs256 now user_data w
        = (Inl (HTTPException 400 ''Username already exists''), w1)"
      using g1 r1 by (simp add: register_def)
    show ?thesis
      using reg w1(1) unique_count [OF assms(2) ex] by simp
  qed
  have mail: "fst (register ckey crypt salt hs256 now user_data w)
              = Inl (HTTPException 400 ''Email already exists'')
          \<and> db (snd (register ckey crypt salt hs256 now user_data w)) = db w"
    if no: "\<not> list_ex (\<lambda>u. ckey (u_username u) = ckey (reg_username user_data)) (users (db w))"
      and ex: "list_ex (\<lambda>u. u_email u = reg_email user_data) (users (db w))"
  proof -
    have n: "?byname (db w) = None"
      using find_not_list_ex [OF no] .
    from find_list_ex [OF list_ex_key [OF ex, of ckey]]
    obtain u where "?bymail (db w) = Some u" by blast
    then have "register ckey crypt salt hs256 now user_data w
        = (Inl (HTTPException 400 ''Email already exists''), w2)"
      using g1 r1 n g2 r2 by (simp add: register_def)
    then show ?thesis
      using w2 by simp
  qed
  from name mail show ?thesis by blast
qed

theorem register_duplicate_rejected_witness:
  "db_available alice_world
   \<and> distinct (map (\<lambda>u. ascii_ci (u_username u)) (users (db alice_world)))
   \<and> list_ex (\<lambda>u. u_username u = ''alice'') (users (db alice_world))
   \<and> fst (register ascii_ci toy_crypt toy_salt toy_hs256 50
            \<lparr>reg_username = ''alice'', reg_email = ''new@x.com'', reg_password = ''pw''\<rparr> alice_world)
       = Inl (HTTPException 400 ''Username already exists'')
   \<and> users (db (snd (register ascii_ci toy_crypt toy_salt toy_hs256 50
            \<lparr>reg_username = ''alice'', reg_email = ''new@x.com'', reg_password = ''pw''\<rparr> alice_world)))
       = [alice]
   \<and> \<not> list_ex (\<lambda>u. ascii_ci (u_username u) = ascii_ci ''bob'') (users (db alice_world))
   \<and> list_ex (\<lambda>u. u_email u = ''alice@x.com'') (users (db alice_world))
   \<and> fst (register ascii_ci toy_crypt toy_salt toy_hs256 50
            \<lparr>reg_username = ''bob'', reg_email = ''alice@x.com'', reg_password = ''pw''\<rparr> alice_world)
       = Inl (HTTPException 400 ''Email already exists'')"
proof -
  let ?a = "\<lparr>reg_username = ''alice'', reg_email = ''new@x.com'', reg_password = ''pw''\<rparr>"
  let ?b = "\<lparr>reg_username = ''bob'', reg_email = ''alice@x.com'', reg_password = ''pw''\<rparr>"
  have h1: "db_available alice_world"
    by (rule alice_world_facts)
  have h2: "distinct (map (\<lambda>u. ascii_ci (u_username u)) (users (db alice_world)))"
    by (simp add: alice_world_facts)
  have h3: "list_ex (\<lambda>u. u_username u = reg_username ?a) (users (db alice_world))"
    by (simp add: alice_world_facts alice_def)
  have h4: "\<not> list_ex (\<lambda>u. ascii_ci (u_username u) = ascii_ci (reg_username ?b)) (users (db alice_world))"
    by code_simp
  have h5: "list_ex (\<lambda>u. u_email u = reg_email ?b) (users (db alice_world))"
    by (simp add: alice_world_facts alice_def)
  show ?thesis
    using h1 h2 h3 h4 h5
      register_duplicate_rejected [OF h1 h2, of ?a toy_crypt toy_salt toy_hs256 50]
      register_duplicate_rejected [OF h1 h2, of ?b toy_crypt toy_salt toy_hs256 50]
    by (simp add: alice_world_facts)
qed

section \<open>History\<close>

text \<open>
  C9. On a reachable database, the history operation returns one list that holds exactly the
  stored records whose \<open>user_id\<close> is the caller's id, each as often as it is stored and no
  record of another user, ordered by \<open>created_at\<close> with the newest first.
\<close>

theorem get_history_own_records:
  assumes "db_available w"
  shows "\<exists>rows. fst (get_history current_user w) = Inr rows
           \<and> mset rows = mset (filter (\<lambda>r. p_user_id r = u_id current_user) (predictions (db w)))
           \<and> sorted_wrt (\<lambda>a b. p_created_at b \<le> p_created_at a) rows
           \<and> list_all (\<lambda>r. p_user_id r = u_id current_user) rows"
proof -
  let ?rows = "order_by_created_at_desc (filter (\<lambda>r. p_user_id r = u_id current_user) (predictions (db w)))"
  have "fst (get_history current_user w) = Inr ?rows"
    using get_db_read(1) [OF assms,
        of "\<lambda>d. order_by_created_at_desc (filter (\<lambda>r. p_user_id r = u_id current_user) (predictions d))"]
    by (simp add: get_history_def get_user_predictions_def)
  moreover have "mset ?rows = mset (filter (\<lambda>r. p_user_id r = u_id current_user) (predictions (db w)))"
    by (simp add: order_by_created_at_desc_def)
  moreover have "sorted_wrt (\<lambda>a b. p_created_at b \<le> p_created_at a) ?rows"
    by (rule order_by_created_at_desc_sorted)
  moreover have "list_all (\<lambda>r. p_user_id r = u_id current_user) ?rows"
    by (simp add: order_by_created_at_desc_def list_all_iff)
  ultimately show ?thesis by blast
qed

theorem get_history_own_records_witness:
  "db_available history_world
   \<and> (\<exists>rows. fst (get_history alice history_world) = Inr rows
         \<and> mset rows = mset (filter (\<lambda>r. p_user_id r = u_id alice) (predictions (db history_world)))
         \<and> sorted_wrt (\<lambda>a b. p_created_at b \<le> p_created_at a) rows
         \<and> list_all (\<lambda>r. p_user_id r = u_id alice) rows)
   \<and> fst (get_history alice history_world) = Inr [toy_row 3 1 30, toy_row 1 1 10]"
proof -
  have h: "db_available history_world"
    by (simp add: db_available_def history_world_def empty_world_def)
  show ?thesis
    using h get_history_own_records [OF h, of alice] toy_history by simp
qed

end
